theory Spec2Isabelle
  imports Main
begin

section \<open>Python values\<close>

text \<open>
  The tool arguments and the response dictionaries hold dynamically typed Python values.
  A float is only ever carried around by the handlers modelled here, so it is kept as an
  opaque mantissa and exponent. A dictionary is an association list in insertion order.
\<close>

datatype pyfloat = PyFloat int int

datatype pyval =
    VNone
  | VBool bool
  | VInt int
  | VFloat pyfloat
  | VStr string
  | VList "pyval list"
  | VTuple "pyval list"
  | VDict "(string \<times> pyval) list"

definition squote :: string where
  "squote = [CHR 0x27]"

section \<open>Parameter validation (ppt_mcp_server.py)\<close>

text \<open>
  \<^verbatim>\<open>isinstance(c, int)\<close>: Python's \<^verbatim>\<open>bool\<close> is a subclass of \<^verbatim>\<open>int\<close>, so
  \<^verbatim>\<open>True\<close> and \<^verbatim>\<open>False\<close> are instances, with the values 1 and 0.
\<close>

fun isinstance_int :: "pyval \<Rightarrow> bool" where
  "isinstance_int (VInt n) = True"
| "isinstance_int (VBool b) = True"
| "isinstance_int v = False"

fun int_of_pyval :: "pyval \<Rightarrow> int" where
  "int_of_pyval (VInt n) = n"
| "int_of_pyval (VBool b) = (if b then 1 else 0)"
| "int_of_pyval v = 0"

text \<open>
  \<^verbatim>\<open>
  def is_valid_rgb(color_list):
      if not isinstance(color_list, list) or len(color_list) != 3:
          return False
      return all(isinstance(c, int) and 0 <= c <= 255 for c in color_list)
  \<close>
\<close>

definition rgb_component_ok :: "pyval \<Rightarrow> bool" where
  "rgb_component_ok c = (isinstance_int c \<and> 0 \<le> int_of_pyval c \<and> int_of_pyval c \<le> 255)"

fun is_valid_rgb :: "pyval \<Rightarrow> bool" where
  "is_valid_rgb (VList color_list) =
     (if length color_list \<noteq> 3 then False else list_all rgb_component_ok color_list)"
| "is_valid_rgb v = False"

text \<open>
  The validator as the specification words it: a 3-element sequence (a list or a tuple)
  of integers each in the range 0 to 255.
\<close>

fun sequence_elements :: "pyval \<Rightarrow> pyval list option" where
  "sequence_elements (VList xs) = Some xs"
| "sequence_elements (VTuple xs) = Some xs"
| "sequence_elements v = None"

definition rgb_triple_spec :: "pyval \<Rightarrow> bool" where
  "rgb_triple_spec v =
     (case sequence_elements v of
        None \<Rightarrow> False
      | Some xs \<Rightarrow> length xs = 3 \<and> list_all rgb_component_ok xs)"

text \<open>
  \<^verbatim>\<open>
  def validate_parameters(params):
      for param_name, (value, constraints) in params.items():
          for constraint_func, error_msg in constraints:
              if not constraint_func(value):
                  return False, f"Parameter '{param_name}': {error_msg}"
      return True, None
  \<close>
  The dictionary is iterated in insertion order: an association list. A constraint is a
  predicate with its message. The inner loop is \<open>first_failing\<close>.
\<close>

type_synonym 'v constraint = "('v \<Rightarrow> bool) \<times> string"

fun first_failing :: "'v constraint list \<Rightarrow> 'v \<Rightarrow> string option" where
  "first_failing [] value = None"
| "first_failing ((constraint_func, error_msg) # constraints) value =
     (if \<not> constraint_func value then Some error_msg
      else first_failing constraints value)"

definition parameter_error :: "string \<Rightarrow> string \<Rightarrow> string" where
  "parameter_error param_name error_msg =
     ''Parameter '' @ squote @ param_name @ squote @ '': '' @ error_msg"

fun validate_parameters ::
  "(string \<times> 'v \<times> 'v constraint list) list \<Rightarrow> bool \<times> string option" where
  "validate_parameters [] = (True, None)"
| "validate_parameters ((param_name, value, constraints) # params) =
     (case first_failing constraints value of
        Some error_msg \<Rightarrow> (False, Some (parameter_error param_name error_msg))
      | None \<Rightarrow> validate_parameters params)"

definition all_constraints_hold :: "(string \<times> 'v \<times> 'v constraint list) list \<Rightarrow> bool" where
  "all_constraints_hold params =
     list_all (\<lambda>(param_name, value, constraints).
        list_all (\<lambda>(constraint_func, error_msg). constraint_func value) constraints) params"

definition is_positive :: "int \<Rightarrow> bool" where
  "is_positive value = (value > 0)"

definition is_non_negative :: "int \<Rightarrow> bool" where
  "is_non_negative value = (value \<ge> 0)"

definition is_in_range :: "int \<Rightarrow> int \<Rightarrow> int \<Rightarrow> bool" where
  "is_in_range min_val max_val x = (min_val \<le> x \<and> x \<le> max_val)"

definition is_in_list :: "'a list \<Rightarrow> 'a \<Rightarrow> bool" where
  "is_in_list valid_list x = (x \<in> set valid_list)"

section \<open>Strings and POSIX paths\<close>

text \<open>
  Python's \<^verbatim>\<open>str.strip()\<close> removes the whitespace characters at both ends. A character
  is a code point below 256 here; the whitespace ones are 9 to 13, 28 to 32, 0x85 and 0xA0.
\<close>

definition py_isspace :: "char \<Rightarrow> bool" where
  "py_isspace c =
     (let n = (of_char c :: nat)
      in (9 \<le> n \<and> n \<le> 13) \<or> (28 \<le> n \<and> n \<le> 32) \<or> n = 133 \<or> n = 160)"

definition rstrip_chars :: "(char \<Rightarrow> bool) \<Rightarrow> string \<Rightarrow> string" where
  "rstrip_chars P s = rev (dropWhile P (rev s))"

definition strip :: "string \<Rightarrow> string" where
  "strip s = rstrip_chars py_isspace (dropWhile py_isspace s)"

definition is_sep :: "char \<Rightarrow> bool" where
  "is_sep c = (c = CHR ''/'')"

fun startswith :: "string \<Rightarrow> string \<Rightarrow> bool" where
  "startswith s [] = True"
| "startswith [] (p # ps) = False"
| "startswith (c # s) (p # ps) = (c = p \<and> startswith s ps)"

text \<open>\<^verbatim>\<open>s.split(sep)\<close> for a one-character separator: never an empty list.\<close>

fun split_on :: "char \<Rightarrow> string \<Rightarrow> string list" where
  "split_on sep [] = [[]]"
| "split_on sep (c # s) =
     (if c = sep then [] # split_on sep s
      else (case split_on sep s of
              [] \<Rightarrow> [[c]]
            | w # ws \<Rightarrow> (c # w) # ws))"

fun join_with :: "string \<Rightarrow> string list \<Rightarrow> string" where
  "join_with sep [] = []"
| "join_with sep [x] = x"
| "join_with sep (x # y # ys) = x @ sep @ join_with sep (y # ys)"

text \<open>
  The functions of \<^verbatim>\<open>posixpath\<close> that the server calls.
  \<^verbatim>\<open>
  def isabs(s): return s.startswith('/')
  def split(p):
      i = p.rfind('/') + 1
      head, tail = p[:i], p[i:]
      if head and head != '/'*len(head): head = head.rstrip('/')
      return head, tail
  def join(a, b):
      if b.startswith('/'): path = b
      elif not path or path.endswith('/'): path += b
      else: path += '/' + b
  \<close>
\<close>

definition isabs :: "string \<Rightarrow> bool" where
  "isabs s = startswith s ''/''"

definition basename :: "string \<Rightarrow> string" where
  "basename p = rev (takeWhile (\<lambda>c. \<not> is_sep c) (rev p))"

definition dirname :: "string \<Rightarrow> string" where
  "dirname p =
     (let head = rev (dropWhile (\<lambda>c. \<not> is_sep c) (rev p))
      in if head \<noteq> [] \<and> head \<noteq> replicate (length head) (CHR ''/'')
         then rstrip_chars is_sep head else head)"

definition path_join :: "string \<Rightarrow> string \<Rightarrow> string" where
  "path_join a b =
     (if startswith b ''/'' then b
      else if a = [] \<or> last a = CHR ''/'' then a @ b
      else a @ ''/'' @ b)"

text \<open>
  \<^verbatim>\<open>
  def normpath(path):
      if not path: return '.'
      initial_slashes = path.startswith('/')
      if initial_slashes and path.startswith('//') and not path.startswith('///'):
          initial_slashes = 2
      comps = path.split('/')
      new_comps = []
      for comp in comps:
          if comp in ('', '.'): continue
          if (comp != '..' or (not initial_slashes and not new_comps) or
                  (new_comps and new_comps[-1] == '..')):
              new_comps.append(comp)
          elif new_comps:
              new_comps.pop()
      path = '/'.join(new_comps)
      if initial_slashes: path = '/'*initial_slashes + path
      return path or '.'
  \<close>
\<close>

definition normpath_step :: "nat \<Rightarrow> string list \<Rightarrow> string \<Rightarrow> string list" where
  "normpath_step initial_slashes new_comps part =
     (if part = [] \<or> part = ''.'' then new_comps
      else if part \<noteq> ''..'' \<or> (initial_slashes = 0 \<and> new_comps = []) \<or>
              (new_comps \<noteq> [] \<and> last new_comps = ''..'')
      then new_comps @ [part]
      else if new_comps \<noteq> [] then butlast new_comps
      else new_comps)"

definition normpath :: "string \<Rightarrow> string" where
  "normpath path =
     (if path = [] then ''.''
      else
        (let initial_slashes =
               (if startswith path ''/''
                then (if startswith path ''//'' \<and> \<not> startswith path ''///'' then 2 else 1)
                else (0::nat));
             new_comps = foldl (normpath_step initial_slashes) [] (split_on (CHR ''/'') path);
             joined = replicate initial_slashes (CHR ''/'') @ join_with ''/'' new_comps
         in if joined = [] then ''.'' else joined))"

section \<open>The process environment and the file system\<close>

text \<open>
  What the server reads from its process: the working directory (absolute, as
  \<^verbatim>\<open>os.getcwd()\<close> returns it), the environment variables, the \<^verbatim>\<open>--presentations-root\<close>
  flag stored in \<^verbatim>\<open>_presentations_root_cli\<close> at start-up, what \<^verbatim>\<open>platform.system()\<close>
  reports, and the home directories \<^verbatim>\<open>expanduser\<close> looks up in the password database
  (the empty user name is the current user).
\<close>

record env =
  cwd :: string
  environ :: "string \<rightharpoonup> string"
  presentations_root_cli :: "string option"
  platform_system :: string
  pw_dir :: "string \<rightharpoonup> string"

definition abspath :: "env \<Rightarrow> string \<Rightarrow> string" where
  "abspath e path = normpath (if \<not> isabs path then path_join (cwd e) path else path)"

text \<open>
  \<^verbatim>\<open>
  def expanduser(path):
      if not path.startswith('~'): return path
      i = path.find('/', 1)
      if i < 0: i = len(path)
      if i == 1:
          if 'HOME' not in os.environ: userhome = pwd.getpwuid(os.getuid()).pw_dir   # KeyError: return path
          else: userhome = os.environ['HOME']
      else:
          userhome = pwd.getpwnam(path[1:i]).pw_dir                                   # KeyError: return path
      userhome = userhome.rstrip('/')
      return (userhome + path[i:]) or '/'
  \<close>
\<close>

definition expanduser :: "env \<Rightarrow> string \<Rightarrow> string" where
  "expanduser e path =
     (if \<not> startswith path ''~'' then path
      else
        (let name = takeWhile (\<lambda>c. \<not> is_sep c) (tl path);
             rest = dropWhile (\<lambda>c. \<not> is_sep c) (tl path);
             userhome =
               (if name = [] then
                  (case environ e ''HOME'' of
                     Some h \<Rightarrow> Some h
                   | None \<Rightarrow> pw_dir e [])
                else pw_dir e name)
         in case userhome of
              None \<Rightarrow> path
            | Some h \<Rightarrow>
                (let expanded = rstrip_chars is_sep h @ rest
                 in if expanded = [] then ''/'' else expanded)))"

section \<open>Documents\<close>

text \<open>
  The object model of the document library, as far as the handlers read and write it: a
  presentation is a list of slides, a slide a list of shapes. A shape with a text frame
  holds paragraphs, each a list of runs; a graphic frame with a chart holds the chart's
  data; a connector holds what \<^verbatim>\<open>add_connector\<close> and the line formatting store.
\<close>

record run =
  run_text :: string
  hyperlink_address :: "string option"

record chart_data =
  categories :: "pyval list"
  series :: "(pyval \<times> pyval) list"

datatype connector_type = STRAIGHT | ELBOW | CURVED

record connector =
  connector_kind :: connector_type
  begin_point :: "pyfloat \<times> pyfloat"
  end_point :: "pyfloat \<times> pyfloat"
  line_width :: "pyfloat option"
  line_rgb :: "pyval list option"

datatype shape =
    TextShape "run list list"
  | ChartShape chart_data
  | ConnectorShape connector
  | OtherShape

record core_properties =
  prop_title :: string
  prop_subject :: string
  prop_author :: string
  prop_keywords :: string
  prop_comments :: string

record presentation =
  slides :: "shape list list"
  core :: core_properties

datatype content = Pptx presentation | NotPptx

datatype node = Dir | File content

text \<open>
  The file system maps the components of an absolute path to a node; the root directory
  is the empty list of components and always exists. \<open>stdout\<close> collects what
  \<^verbatim>\<open>print\<close> writes.
\<close>

record world =
  files :: "string list \<rightharpoonup> node"
  stdout :: "string list"

definition print_line :: "string \<Rightarrow> world \<Rightarrow> world" where
  "print_line s w = w\<lparr>stdout := stdout w @ [s]\<rparr>"

definition lookup :: "world \<Rightarrow> string list \<Rightarrow> node option" where
  "lookup w k = (if k = [] then Some Dir else files w k)"

text \<open>
  A path names the node found by walking its components from the root (an absolute path)
  or from the working directory: an empty component and \<^verbatim>\<open>.\<close> stay, \<^verbatim>\<open>..\<close> goes
  up, a name goes down. There are no symbolic links.
\<close>

definition key_step :: "string list \<Rightarrow> string \<Rightarrow> string list" where
  "key_step k part =
     (if part = [] \<or> part = ''.'' then k
      else if part = ''..'' then butlast k
      else k @ [part])"

definition path_key :: "env \<Rightarrow> string \<Rightarrow> string list" where
  "path_key e p =
     foldl key_step
       (if isabs p then [] else foldl key_step [] (split_on (CHR ''/'') (cwd e)))
       (split_on (CHR ''/'') p)"

definition key_path :: "string list \<Rightarrow> string" where
  "key_path k = ''/'' @ join_with ''/'' k"

text \<open>\<^verbatim>\<open>os.path.exists\<close> and \<^verbatim>\<open>os.path.isdir\<close>; both are false on the empty string.\<close>

definition path_exists :: "env \<Rightarrow> world \<Rightarrow> string \<Rightarrow> bool" where
  "path_exists e w p = (p \<noteq> [] \<and> lookup w (path_key e p) \<noteq> None)"

definition path_isdir :: "env \<Rightarrow> world \<Rightarrow> string \<Rightarrow> bool" where
  "path_isdir e w p = (p \<noteq> [] \<and> lookup w (path_key e p) = Some Dir)"

section \<open>Exceptions\<close>

datatype exn =
    FileExistsError string
  | NotADirectoryError string
  | IsADirectoryError string
  | FileNotFoundError string
  | PackageNotFoundError string
  | NameError string
  | IndexError string

datatype 'a result = Return 'a | Raise exn

text \<open>\<^verbatim>\<open>str(e)\<close>, as the handlers put it into their error texts.\<close>

fun str_exn :: "exn \<Rightarrow> string" where
  "str_exn (FileExistsError p) = ''[Errno 17] File exists: '' @ squote @ p @ squote"
| "str_exn (NotADirectoryError p) = ''[Errno 20] Not a directory: '' @ squote @ p @ squote"
| "str_exn (IsADirectoryError p) = ''[Errno 21] Is a directory: '' @ squote @ p @ squote"
| "str_exn (FileNotFoundError p) =
     ''[Errno 2] No such file or directory: '' @ squote @ p @ squote"
| "str_exn (PackageNotFoundError p) = ''Package not found at '' @ squote @ p @ squote"
| "str_exn (NameError n) = ''name '' @ squote @ n @ squote @ '' is not defined''"
| "str_exn (IndexError m) = m"

section \<open>Directory creation\<close>

text \<open>
  \<^verbatim>\<open>os.makedirs(name, exist_ok=True)\<close> walks down the components of \<open>name\<close>: a
  directory that exists is entered, a missing one is created, and a regular file in the
  way fails: \<^verbatim>\<open>FileExistsError\<close> when the file is \<open>name\<close> itself,
  \<^verbatim>\<open>NotADirectoryError\<close> when it is one of its ancestors. \<open>done\<close> holds the
  components already walked.
\<close>

fun mkdirs :: "world \<Rightarrow> string list \<Rightarrow> string list \<Rightarrow> exn option \<times> world" where
  "mkdirs w walked [] = (None, w)"
| "mkdirs w walked (c # cs) =
     (case lookup w (walked @ [c]) of
        Some Dir \<Rightarrow> mkdirs w (walked @ [c]) cs
      | Some (File x) \<Rightarrow>
          (Some (if cs = [] then FileExistsError (key_path (walked @ [c]))
                 else NotADirectoryError (key_path (walked @ [c, hd cs]))), w)
      | None \<Rightarrow> mkdirs (w\<lparr>files := (files w)(walked @ [c] \<mapsto> Dir)\<rparr>) (walked @ [c]) cs)"

definition makedirs :: "env \<Rightarrow> world \<Rightarrow> string \<Rightarrow> exn option \<times> world" where
  "makedirs e w name = mkdirs w [] (path_key e name)"

text \<open>A regular file lies at one of the components below \<open>walked\<close>.\<close>

fun file_in_the_way :: "world \<Rightarrow> string list \<Rightarrow> string list \<Rightarrow> bool" where
  "file_in_the_way w walked [] = False"
| "file_in_the_way w walked (c # cs) =
     (case lookup w (walked @ [c]) of
        Some (File x) \<Rightarrow> True
      | Some Dir \<Rightarrow> file_in_the_way w (walked @ [c]) cs
      | None \<Rightarrow> file_in_the_way w (walked @ [c]) cs)"

definition blocked :: "env \<Rightarrow> world \<Rightarrow> string \<Rightarrow> bool" where
  "blocked e w name = file_in_the_way w [] (path_key e name)"

section \<open>Path resolution (ppt_mcp_server.py)\<close>

text \<open>
  \<^verbatim>\<open>
  def get_presentations_root() -> str:
      if _presentations_root_cli:
          return _presentations_root_cli
      return os.environ.get("PPT_PRESENTATIONS_ROOT", "./presentations")
  \<close>
\<close>

definition get_presentations_root :: "env \<Rightarrow> string" where
  "get_presentations_root e =
     (case presentations_root_cli e of
        Some r \<Rightarrow> if r \<noteq> [] then r
                  else (case environ e ''PPT_PRESENTATIONS_ROOT'' of
                          Some v \<Rightarrow> v | None \<Rightarrow> ''./presentations'')
      | None \<Rightarrow> (case environ e ''PPT_PRESENTATIONS_ROOT'' of
                   Some v \<Rightarrow> v | None \<Rightarrow> ''./presentations''))"

text \<open>
  \<^verbatim>\<open>
  def resolve_presentation_path(name_or_path: str) -> str:
      try:
          raw = name_or_path.strip()
          if os.path.isabs(raw) or os.path.dirname(raw):
              abs_path = os.path.abspath(raw)
              base_name = os.path.basename(abs_path)
              looks_like_file = '.' in base_name and not base_name.startswith('.')
              dir_to_create = os.path.dirname(abs_path) if looks_like_file else abs_path
              if dir_to_create:
                  os.makedirs(dir_to_create, exist_ok=True)
              return abs_path
          root = os.path.abspath(get_presentations_root())
          os.makedirs(root, exist_ok=True)
          return os.path.join(root, raw)
      except Exception as e:
          print(f"Error resolving presentation path: {e}")
          raise
  \<close>
\<close>

definition looks_like_file :: "string \<Rightarrow> bool" where
  "looks_like_file base_name = (CHR ''.'' \<in> set base_name \<and> \<not> startswith base_name ''.'')"

definition dir_to_create :: "string \<Rightarrow> string" where
  "dir_to_create abs_path =
     (if looks_like_file (basename abs_path) then dirname abs_path else abs_path)"

definition makedirs_or_reraise :: "env \<Rightarrow> world \<Rightarrow> string \<Rightarrow> string \<Rightarrow> string result \<times> world" where
  "makedirs_or_reraise e w dir result =
     (case makedirs e w dir of
        (Some x, w') \<Rightarrow>
          (Raise x, print_line (''Error resolving presentation path: '' @ str_exn x) w')
      | (None, w') \<Rightarrow> (Return result, w'))"

definition resolve_presentation_path :: "env \<Rightarrow> world \<Rightarrow> string \<Rightarrow> string result \<times> world" where
  "resolve_presentation_path e w name_or_path =
     (let raw = strip name_or_path
      in if isabs raw \<or> dirname raw \<noteq> [] then
           (let abs_path = abspath e raw
            in if dir_to_create abs_path \<noteq> []
               then makedirs_or_reraise e w (dir_to_create abs_path) abs_path
               else (Return abs_path, w))
         else
           (let root = abspath e (get_presentations_root e)
            in makedirs_or_reraise e w root (path_join root raw)))"

section \<open>Formatting\<close>

text \<open>What an f-string writes for an integer, and for a value that may be \<^verbatim>\<open>None\<close>.\<close>

definition digit_char :: "nat \<Rightarrow> char" where
  "digit_char n = ''0123456789'' ! n"

fun show_nat :: "nat \<Rightarrow> string" where
  "show_nat n =
     (if n < 10 then [digit_char n]
      else show_nat (n div 10) @ [digit_char (n mod 10)])"

declare show_nat.simps [simp del]

definition show_int :: "int \<Rightarrow> string" where
  "show_int i = (if i < 0 then ''-'' @ show_nat (nat (- i)) else show_nat (nat i))"

definition show_int_option :: "int option \<Rightarrow> string" where
  "show_int_option i = (case i of None \<Rightarrow> ''None'' | Some n \<Rightarrow> show_int n)"

definition show_str_option :: "string option \<Rightarrow> string" where
  "show_str_option s = (case s of None \<Rightarrow> ''None'' | Some t \<Rightarrow> t)"

definition str_option_value :: "string option \<Rightarrow> pyval" where
  "str_option_value s = (case s of None \<Rightarrow> VNone | Some t \<Rightarrow> VStr t)"

text \<open>Truth value of an optional string and of a float, as \<^verbatim>\<open>if x:\<close> tests them.\<close>

definition truthy_str :: "string option \<Rightarrow> bool" where
  "truthy_str s = (case s of None \<Rightarrow> False | Some t \<Rightarrow> t \<noteq> [])"

fun truthy_float :: "pyfloat \<Rightarrow> bool" where
  "truthy_float (PyFloat m ex) = (m \<noteq> 0)"

definition lower_char :: "char \<Rightarrow> char" where
  "lower_char c =
     (case map_of (zip ''ABCDEFGHIJKLMNOPQRSTUVWXYZ'' ''abcdefghijklmnopqrstuvwxyz'') c of
        Some l \<Rightarrow> l
      | None \<Rightarrow> c)"

definition py_lower :: "string \<Rightarrow> string" where
  "py_lower s = map lower_char s"

text \<open>Indexing a sequence: a negative index counts from the end, out of range raises.\<close>

definition py_index :: "'a list \<Rightarrow> int \<Rightarrow> 'a result" where
  "py_index xs i =
     (let n = int (length xs); j = (if i < 0 then n + i else i)
      in if 0 \<le> j \<and> j < n then Return (xs ! nat j)
         else Raise (IndexError ''tuple index out of range''))"

definition py_position :: "'a list \<Rightarrow> int \<Rightarrow> nat" where
  "py_position xs i = nat (if i < 0 then int (length xs) + i else i)"

section \<open>Responses\<close>

type_synonym response = "(string \<times> pyval) list"

definition error_response :: "string \<Rightarrow> response" where
  "error_response msg = [(''error'', VStr msg)]"

text \<open>
  \<^verbatim>\<open>
  def sanitize_presentation_name(presentation_file_name):
      if not presentation_file_name:
          return presentation_file_name
      stripped = presentation_file_name.strip()
      if not stripped:
          return stripped
      stripped = stripped.rstrip("\\/")
      if not stripped:
          return stripped
      basename = os.path.basename(stripped)
      return basename or stripped
  \<close>
\<close>

definition sanitize_presentation_name :: "string option \<Rightarrow> string option" where
  "sanitize_presentation_name presentation_file_name =
     (case presentation_file_name of
        None \<Rightarrow> None
      | Some name \<Rightarrow>
          if name = [] then Some name
          else if strip name = [] then Some (strip name)
          else
            (let stripped = rstrip_chars (\<lambda>c. c = CHR 0x5C \<or> c = CHR ''/'') (strip name)
             in if stripped = [] then Some stripped
                else if basename stripped \<noteq> [] then Some (basename stripped)
                else Some stripped))"

section \<open>The document helpers (utils)\<close>

text \<open>
  Modelled from the spec: the module \<^verbatim>\<open>utils\<close> (imported as \<^verbatim>\<open>ppt_utils\<close>) is not among
  the sources. The specification gives its surface as \<^verbatim>\<open>open(path) -> Document\<close> and
  \<^verbatim>\<open>save(Document, path) -> path\<close>, raising on failure. Opening succeeds on a file that
  holds a presentation and raises otherwise.
\<close>

definition ppt_open_presentation :: "env \<Rightarrow> world \<Rightarrow> string \<Rightarrow> presentation result" where
  "ppt_open_presentation e w path =
     (case lookup w (path_key e path) of
        Some (File (Pptx pres)) \<Rightarrow> Return pres
      | Some (File NotPptx) \<Rightarrow> Raise (PackageNotFoundError path)
      | Some Dir \<Rightarrow> Raise (PackageNotFoundError path)
      | None \<Rightarrow> Raise (PackageNotFoundError path))"

text \<open>
  Modelled from the spec: saving writes the document to the path and returns the path. It
  raises when the path is a directory, or when its parent is missing or not a directory.
\<close>

definition ppt_save_presentation ::
  "env \<Rightarrow> world \<Rightarrow> presentation \<Rightarrow> string \<Rightarrow> string result \<times> world" where
  "ppt_save_presentation e w pres path =
     (let k = path_key e path
      in case lookup w k of
           Some Dir \<Rightarrow> (Raise (IsADirectoryError path), w)
         | Some (File x) \<Rightarrow> (Return path, w\<lparr>files := (files w)(k \<mapsto> File (Pptx pres))\<rparr>)
         | None \<Rightarrow>
             (case lookup w (butlast k) of
                Some Dir \<Rightarrow> (Return path, w\<lparr>files := (files w)(k \<mapsto> File (Pptx pres))\<rparr>)
              | Some (File x) \<Rightarrow> (Raise (NotADirectoryError path), w)
              | None \<Rightarrow> (Raise (FileNotFoundError path), w)))"

text \<open>
  Modelled from the spec: a new presentation has the library's default content, which the
  specification gives as one slide.
\<close>

definition ppt_create_presentation :: presentation where
  "ppt_create_presentation =
     \<lparr>slides = [[]],
      core = \<lparr>prop_title = [], prop_subject = [], prop_author = [], prop_keywords = [],
              prop_comments = []\<rparr>\<rparr>"

text \<open>
  Modelled from the spec: \<^verbatim>\<open>ppt_utils.set_core_properties\<close> is not among the sources;
  each property that is given is stored in the document.
\<close>

definition ppt_set_core_properties ::
  "presentation \<Rightarrow> string option \<Rightarrow> string option \<Rightarrow> string option \<Rightarrow> string option \<Rightarrow>
     string option \<Rightarrow> presentation" where
  "ppt_set_core_properties pres title subject author keywords_arg comments =
     (let c0 = core pres;
          c1 = (case title of None \<Rightarrow> c0 | Some v \<Rightarrow> c0\<lparr>prop_title := v\<rparr>);
          c2 = (case subject of None \<Rightarrow> c1 | Some v \<Rightarrow> c1\<lparr>prop_subject := v\<rparr>);
          c3 = (case author of None \<Rightarrow> c2 | Some v \<Rightarrow> c2\<lparr>prop_author := v\<rparr>);
          c4 = (case keywords_arg of None \<Rightarrow> c3 | Some v \<Rightarrow> c3\<lparr>prop_keywords := v\<rparr>);
          c5 = (case comments of None \<Rightarrow> c4 | Some v \<Rightarrow> c4\<lparr>prop_comments := v\<rparr>)
      in pres\<lparr>core := c5\<rparr>)"

section \<open>Presentation tools (tools/presentation_tools.py)\<close>

text \<open>
  \<^verbatim>\<open>
  def create_presentation(presentation_file_name: str) -> Dict:
      path = resolve_presentation_path(presentation_file_name)
      pres = ppt_utils.create_presentation()
      saved_path = ppt_utils.save_presentation(pres, path)
      return {"message": f"Created new presentation at: {saved_path}",
              "file_path": saved_path, "slide_count": len(pres.slides)}
  \<close>
  A handler returns its response, or raises to whoever called it.
\<close>

definition create_presentation :: "env \<Rightarrow> world \<Rightarrow> string \<Rightarrow> response result \<times> world" where
  "create_presentation e w presentation_file_name =
     (case resolve_presentation_path e w presentation_file_name of
        (Raise x, w1) \<Rightarrow> (Raise x, w1)
      | (Return path, w1) \<Rightarrow>
          (case ppt_save_presentation e w1 ppt_create_presentation path of
             (Raise x, w2) \<Rightarrow> (Raise x, w2)
           | (Return saved_path, w2) \<Rightarrow>
               (Return [(''message'', VStr (''Created new presentation at: '' @ saved_path)),
                        (''file_path'', VStr saved_path),
                        (''slide_count'', VInt (int (length (slides ppt_create_presentation))))],
                w2)))"

text \<open>
  \<^verbatim>\<open>
  def open_presentation(presentation_file_name: str) -> Dict:
      path = resolve_presentation_path(presentation_file_name)
      if not os.path.exists(path):
          return {"error": f"File not found: {path}"}
      try:
          pres = ppt_utils.open_presentation(path)
      except Exception as e:
          return {"error": f"Failed to open presentation: {str(e)}"}
      return {"message": f"Opened presentation: {path}", "file_path": path,
              "slide_count": len(pres.slides)}
  \<close>
\<close>

definition open_presentation :: "env \<Rightarrow> world \<Rightarrow> string \<Rightarrow> response result \<times> world" where
  "open_presentation e w presentation_file_name =
     (case resolve_presentation_path e w presentation_file_name of
        (Raise x, w1) \<Rightarrow> (Raise x, w1)
      | (Return path, w1) \<Rightarrow>
          if \<not> path_exists e w1 path
          then (Return (error_response (''File not found: '' @ path)), w1)
          else
            (case ppt_open_presentation e w1 path of
               Raise x \<Rightarrow>
                 (Return (error_response (''Failed to open presentation: '' @ str_exn x)), w1)
             | Return pres \<Rightarrow>
                 (Return [(''message'', VStr (''Opened presentation: '' @ path)),
                          (''file_path'', VStr path),
                          (''slide_count'', VInt (int (length (slides pres))))],
                  w1)))"

text \<open>
  \<^verbatim>\<open>
  def set_core_properties(title=None, subject=None, author=None, keywords=None,
                          comments=None, presentation_file_name=None) -> Dict:
      if not presentation_file_name:
          return {"error": "presentation_file_name is required"}
      path = resolve_presentation_path(presentation_file_name)
      if not os.path.exists(path):
          return {"error": f"File not found: {path}"}
      pres = ppt_utils.open_presentation(path)
      try:
          ppt_utils.set_core_properties(pres, title=title, subject=subject, author=author,
                                        keywords=keywords, comments=comments)
          ppt_utils.save_presentation(pres, path)
          return {"message": "Core properties updated successfully", "file_path": path}
      except Exception as e:
          return {"error": f"Failed to set core properties: {str(e)}"}
  \<close>
\<close>

definition set_core_properties ::
  "env \<Rightarrow> world \<Rightarrow> string option \<Rightarrow> string option \<Rightarrow> string option \<Rightarrow> string option \<Rightarrow>
     string option \<Rightarrow> string option \<Rightarrow> response result \<times> world" where
  "set_core_properties e w title subject author keywords_arg comments presentation_file_name =
     (if \<not> truthy_str presentation_file_name
      then (Return (error_response ''presentation_file_name is required''), w)
      else
        (case resolve_presentation_path e w (show_str_option presentation_file_name) of
           (Raise x, w1) \<Rightarrow> (Raise x, w1)
         | (Return path, w1) \<Rightarrow>
             if \<not> path_exists e w1 path
             then (Return (error_response (''File not found: '' @ path)), w1)
             else
               (case ppt_open_presentation e w1 path of
                  Raise x \<Rightarrow> (Raise x, w1)
                | Return pres \<Rightarrow>
                    (case ppt_save_presentation e w1
                            (ppt_set_core_properties pres title subject author keywords_arg
                               comments) path of
                       (Raise x, w2) \<Rightarrow>
                         (Return (error_response
                            (''Failed to set core properties: '' @ str_exn x)), w2)
                     | (Return saved_path, w2) \<Rightarrow>
                         (Return [(''message'', VStr ''Core properties updated successfully''),
                                  (''file_path'', VStr path)],
                          w2)))))"

section \<open>The handlers behind a catch-all boundary\<close>

text \<open>
  The hyperlink, chart, connector and transition handlers have one shape:
  \<^verbatim>\<open>
  try:
      if not presentation_file_name:
          return {"error": "presentation_file_name is required"}
      path = resolve_presentation_path(presentation_file_name)
      if not os.path.exists(path):
          return {"error": f"File not found: {...}"}
      pres = ppt_utils.open_presentation(path)
      ...
  except Exception as e:
      return {"error": f"Failed to ...: {str(e)}"}
  \<close>
  \<open>with_existing_presentation\<close> is the opening part, with what the handler names in its
  file-not-found text (a function of the resolved path and of the identifier) and the rest
  of the handler as parameters; \<open>catch_exception\<close> is the \<^verbatim>\<open>except\<close> clause.
\<close>

definition catch_exception ::
  "string \<Rightarrow> response result \<times> world \<Rightarrow> response result \<times> world" where
  "catch_exception prefix rw =
     (case rw of
        (Raise x, w) \<Rightarrow> (Return (error_response (prefix @ str_exn x)), w)
      | (Return r, w) \<Rightarrow> (Return r, w))"

definition with_existing_presentation ::
  "env \<Rightarrow> world \<Rightarrow> string option \<Rightarrow> (string \<Rightarrow> string \<Rightarrow> string) \<Rightarrow>
     (world \<Rightarrow> string \<Rightarrow> presentation \<Rightarrow> response result \<times> world) \<Rightarrow>
     response result \<times> world" where
  "with_existing_presentation e w presentation_file_name named rest =
     (if \<not> truthy_str presentation_file_name
      then (Return (error_response ''presentation_file_name is required''), w)
      else
        (case resolve_presentation_path e w (show_str_option presentation_file_name) of
           (Raise x, w1) \<Rightarrow> (Raise x, w1)
         | (Return path, w1) \<Rightarrow>
             if \<not> path_exists e w1 path
             then (Return (error_response
                     (''File not found: '' @
                        named path (show_str_option presentation_file_name))), w1)
             else
               (case ppt_open_presentation e w1 path of
                  Raise x \<Rightarrow> (Raise x, w1)
                | Return pres \<Rightarrow> rest w1 path pres)))"

definition slide_index_ok :: "presentation \<Rightarrow> int \<Rightarrow> bool" where
  "slide_index_ok pres slide_index = (0 \<le> slide_index \<and> slide_index < int (length (slides pres)))"

definition slide_error :: "int \<Rightarrow> response" where
  "slide_error slide_index =
     error_response (''Slide index '' @ show_int slide_index @ '' out of range'')"

definition save_then ::
  "env \<Rightarrow> world \<Rightarrow> presentation \<Rightarrow> string \<Rightarrow> response \<Rightarrow> response result \<times> world" where
  "save_then e w pres path r =
     (case ppt_save_presentation e w pres path of
        (Raise x, w') \<Rightarrow> (Raise x, w')
      | (Return saved_path, w') \<Rightarrow> (Return r, w'))"

section \<open>Slide transitions (tools/transition_tools.py)\<close>

text \<open>
  \<^verbatim>\<open>
  if not (0 <= slide_index < len(pres.slides)):
      return {"error": f"Slide index {slide_index} out of range"}
  slide = pres.slides[slide_index]
  if operation == "get":
      return {"message": f"Transition info for slide {slide_index}",
              "slide_index": slide_index, "note": "..."}
  elif operation == "set":
      result = {"message": f"Transition setting requested for slide {slide_index}",
                "slide_index": slide_index, "transition_type": transition_type,
                "duration": duration, "note": "..."}
      ppt_utils.save_presentation(pres, path)
      return result
  elif operation == "remove":
      result = {"message": f"Transition removal requested for slide {slide_index}",
                "slide_index": slide_index, "note": "..."}
      ppt_utils.save_presentation(pres, path)
      return result
  else:
      return {"error": f"Unsupported operation: {operation}. Use 'set', 'remove', or 'get'"}
  \<close>
\<close>

definition transitions_rest ::
  "env \<Rightarrow> int \<Rightarrow> string \<Rightarrow> string option \<Rightarrow> pyfloat \<Rightarrow> world \<Rightarrow> string \<Rightarrow> presentation \<Rightarrow>
     response result \<times> world" where
  "transitions_rest e slide_index operation transition_type duration w path pres =
     (if \<not> slide_index_ok pres slide_index then (Return (slide_error slide_index), w)
      else if operation = ''get'' then
        (Return [(''message'', VStr (''Transition info for slide '' @ show_int slide_index)),
                 (''slide_index'', VInt slide_index),
                 (''note'', VStr ''Transition reading has limited support in python-pptx'')],
         w)
      else if operation = ''set'' then
        save_then e w pres path
          [(''message'', VStr (''Transition setting requested for slide '' @ show_int slide_index)),
           (''slide_index'', VInt slide_index),
           (''transition_type'', str_option_value transition_type),
           (''duration'', VFloat duration),
           (''note'', VStr (''Transition setting has limited support in python-pptx - '' @
                           ''this is a placeholder for future enhancement''))]
      else if operation = ''remove'' then
        save_then e w pres path
          [(''message'', VStr (''Transition removal requested for slide '' @ show_int slide_index)),
           (''slide_index'', VInt slide_index),
           (''note'', VStr (''Transition removal has limited support in python-pptx - '' @
                           ''this is a placeholder for future enhancement''))]
      else
        (Return (error_response
           (''Unsupported operation: '' @ operation @ ''. Use '' @ squote @ ''set'' @ squote @
            '', '' @ squote @ ''remove'' @ squote @ '', or '' @ squote @ ''get'' @ squote)), w))"

definition manage_slide_transitions ::
  "env \<Rightarrow> world \<Rightarrow> int \<Rightarrow> string \<Rightarrow> string option \<Rightarrow> pyfloat \<Rightarrow> string option \<Rightarrow>
     response result \<times> world" where
  "manage_slide_transitions e w slide_index operation transition_type duration
       presentation_file_name =
     catch_exception ''Failed to manage slide transitions: ''
       (with_existing_presentation e w presentation_file_name (\<lambda>path name. name)
          (transitions_rest e slide_index operation transition_type duration))"

section \<open>Chart data (tools/chart_tools.py)\<close>

text \<open>
  \<^verbatim>\<open>
  if not (0 <= slide_index < len(pres.slides)):
      return {"error": f"Slide index {slide_index} out of range"}
  slide = pres.slides[slide_index]
  if not (0 <= shape_index < len(slide.shapes)):
      return {"error": f"Shape index {shape_index} out of range"}
  shape = slide.shapes[shape_index]
  if not hasattr(shape, 'has_chart') or not shape.has_chart:
      return {"error": "Shape is not a chart"}
  chart = shape.chart
  chart_data = ChartData()
  chart_data.categories = categories
  for series in series_data:
      if 'name' not in series or 'values' not in series:
          return {"error": "Each series must have 'name' and 'values' keys"}
      chart_data.add_series(series['name'], series['values'])
  chart.replace_data(chart_data)
  ppt_utils.save_presentation(pres, path)
  return {"message": f"Updated chart data on slide {slide_index}, shape {shape_index}",
          "categories": categories, "series_count": len(series_data),
          "series_names": [s['name'] for s in series_data]}
  \<close>
\<close>

definition shape_index_ok :: "shape list \<Rightarrow> int \<Rightarrow> bool" where
  "shape_index_ok slide shape_index = (0 \<le> shape_index \<and> shape_index < int (length slide))"

definition shape_error :: "int option \<Rightarrow> response" where
  "shape_error shape_index =
     error_response (''Shape index '' @ show_int_option shape_index @ '' out of range'')"

fun add_all_series :: "(string \<times> pyval) list list \<Rightarrow> (pyval \<times> pyval) list option" where
  "add_all_series [] = Some []"
| "add_all_series (s # ss) =
     (case (map_of s ''name'', map_of s ''values'') of
        (Some n, Some v) \<Rightarrow>
          (case add_all_series ss of None \<Rightarrow> None | Some rest \<Rightarrow> Some ((n, v) # rest))
      | (Some n, None) \<Rightarrow> None
      | (None, b) \<Rightarrow> None)"

definition set_shape :: "presentation \<Rightarrow> nat \<Rightarrow> nat \<Rightarrow> shape \<Rightarrow> presentation" where
  "set_shape pres i j sh = pres\<lparr>slides := (slides pres)[i := (slides pres ! i)[j := sh]]\<rparr>"

definition chart_rest ::
  "env \<Rightarrow> int \<Rightarrow> int \<Rightarrow> pyval list \<Rightarrow> (string \<times> pyval) list list \<Rightarrow> world \<Rightarrow> string \<Rightarrow>
     presentation \<Rightarrow> response result \<times> world" where
  "chart_rest e slide_index shape_index cats series_data w path pres =
     (if \<not> slide_index_ok pres slide_index then (Return (slide_error slide_index), w)
      else
        (let slide = slides pres ! nat slide_index
         in if \<not> shape_index_ok slide shape_index
            then (Return (shape_error (Some shape_index)), w)
            else
              (case slide ! nat shape_index of
                 ChartShape ch \<Rightarrow>
                   (case add_all_series series_data of
                      None \<Rightarrow>
                        (Return (error_response
                           (''Each series must have '' @ squote @ ''name'' @ squote @ '' and '' @
                            squote @ ''values'' @ squote @ '' keys'')), w)
                    | Some new_series \<Rightarrow>
                        save_then e w
                          (set_shape pres (nat slide_index) (nat shape_index)
                             (ChartShape \<lparr>categories = cats, series = new_series\<rparr>))
                          path
                          [(''message'', VStr (''Updated chart data on slide '' @
                              show_int slide_index @ '', shape '' @ show_int shape_index)),
                           (''categories'', VList cats),
                           (''series_count'', VInt (int (length series_data))),
                           (''series_names'', VList (map fst new_series))])
               | TextShape ps \<Rightarrow> (Return (error_response ''Shape is not a chart''), w)
               | ConnectorShape c \<Rightarrow> (Return (error_response ''Shape is not a chart''), w)
               | OtherShape \<Rightarrow> (Return (error_response ''Shape is not a chart''), w))))"

definition update_chart_data ::
  "env \<Rightarrow> world \<Rightarrow> int \<Rightarrow> int \<Rightarrow> pyval list \<Rightarrow> (string \<times> pyval) list list \<Rightarrow> string option \<Rightarrow>
     response result \<times> world" where
  "update_chart_data e w slide_index shape_index cats series_data presentation_file_name =
     catch_exception ''Failed to update chart data: ''
       (with_existing_presentation e w presentation_file_name
          (\<lambda>path name. show_str_option (sanitize_presentation_name (Some name)))
          (chart_rest e slide_index shape_index cats series_data))"

section \<open>Connectors (tools/connector_tools.py)\<close>

text \<open>
  The names that a lookup inside \<^verbatim>\<open>add_connector\<close> can find besides its own parameters
  and locals: those of the enclosing \<^verbatim>\<open>register_connector_tools\<close> and those the module
  imports or defines. The module reads
  \<^verbatim>\<open>
  from typing import Dict, List, Optional, Any
  from pptx.util import Inches, Pt
  from pptx.enum.shapes import MSO_CONNECTOR
  from pptx.dml.color import RGBColor
  import os
  from mcp.server.fastmcp import FastMCP
  import utils as ppt_utils

  def register_connector_tools(app, resolve_presentation_path):
      @app.tool()
      def add_connector(...):
  \<close>
  A name found nowhere raises \<^verbatim>\<open>NameError\<close>.
\<close>

definition connector_tools_scope :: "string list" where
  "connector_tools_scope =
     [''Dict'', ''List'', ''Optional'', ''Any'', ''Inches'', ''Pt'', ''MSO_CONNECTOR'',
      ''RGBColor'', ''os'', ''FastMCP'', ''ppt_utils'', ''register_connector_tools'',
      ''app'', ''resolve_presentation_path'', ''add_connector'']"

definition name_lookup :: "string list \<Rightarrow> string \<Rightarrow> unit result" where
  "name_lookup scope n = (if n \<in> set scope then Return () else Raise (NameError n))"

text \<open>
  \<^verbatim>\<open>
  if not (0 <= slide_index < len(pres.slides)):
      return {"error": f"Slide index {slide_index} out of range"}
  slide = pres.slides[slide_index]
  connector_map = {'straight': MSO_CONNECTOR.STRAIGHT, 'elbow': MSO_CONNECTOR.ELBOW,
                   'curved': MSO_CONNECTOR.CURVED}
  if connector_type.lower() not in connector_map:
      return {"error": f"Invalid connector type. Use: {list(connector_map.keys())}"}
  connector = slide.shapes.add_connector(connector_map[connector_type.lower()],
      Inches(start_x), Inches(start_y), Inches(end_x), Inches(end_y))
  if line_width:
      connector.line.width = Pt(line_width)
  if color and is_valid_rgb(color):
      connector.line.color.rgb = RGBColor(*color)
  ppt_utils.save_presentation(pres, path)
  return {"message": f"Added {connector_type} connector to slide {slide_index}",
          "connector_type": connector_type, "start_point": [start_x, start_y],
          "end_point": [end_x, end_y], "shape_index": len(slide.shapes) - 1}
  \<close>
\<close>

definition connector_map :: "(string \<times> connector_type) list" where
  "connector_map = [(''straight'', STRAIGHT), (''elbow'', ELBOW), (''curved'', CURVED)]"

definition truthy_list :: "'a list option \<Rightarrow> bool" where
  "truthy_list xs = (case xs of None \<Rightarrow> False | Some ys \<Rightarrow> ys \<noteq> [])"

definition add_shape :: "presentation \<Rightarrow> nat \<Rightarrow> shape \<Rightarrow> presentation" where
  "add_shape pres i sh = pres\<lparr>slides := (slides pres)[i := slides pres ! i @ [sh]]\<rparr>"

definition connector_rest ::
  "env \<Rightarrow> int \<Rightarrow> string \<Rightarrow> pyfloat \<Rightarrow> pyfloat \<Rightarrow> pyfloat \<Rightarrow> pyfloat \<Rightarrow> pyfloat \<Rightarrow>
     pyval list option \<Rightarrow> world \<Rightarrow> string \<Rightarrow> presentation \<Rightarrow> response result \<times> world" where
  "connector_rest e slide_index ctype start_x start_y end_x end_y width color w path pres =
     (if \<not> slide_index_ok pres slide_index then (Return (slide_error slide_index), w)
      else
        (case map_of connector_map (py_lower ctype) of
           None \<Rightarrow>
             (Return (error_response
                (''Invalid connector type. Use: ['' @ squote @ ''straight'' @ squote @ '', '' @
                 squote @ ''elbow'' @ squote @ '', '' @ squote @ ''curved'' @ squote @ '']'')), w)
         | Some kind \<Rightarrow>
             (let c0 = \<lparr>connector_kind = kind, begin_point = (start_x, start_y),
                        end_point = (end_x, end_y), line_width = None, line_rgb = None\<rparr>;
                  c1 = (if truthy_float width then c0\<lparr>line_width := Some width\<rparr> else c0)
              in if truthy_list color then
                   (case name_lookup connector_tools_scope ''is_valid_rgb'' of
                      Raise x \<Rightarrow> (Raise x, w)
                    | Return u \<Rightarrow>
                        (let c2 = (if is_valid_rgb (VList (case color of Some ys \<Rightarrow> ys | None \<Rightarrow> []))
                                   then c1\<lparr>line_rgb := color\<rparr> else c1)
                         in save_then e w (add_shape pres (nat slide_index) (ConnectorShape c2)) path
                              [(''message'', VStr (''Added '' @ ctype @ '' connector to slide '' @
                                  show_int slide_index)),
                               (''connector_type'', VStr ctype),
                               (''start_point'', VList [VFloat start_x, VFloat start_y]),
                               (''end_point'', VList [VFloat end_x, VFloat end_y]),
                               (''shape_index'',
                                  VInt (int (length (slides pres ! nat slide_index))))]))
                 else
                   save_then e w (add_shape pres (nat slide_index) (ConnectorShape c1)) path
                     [(''message'', VStr (''Added '' @ ctype @ '' connector to slide '' @
                         show_int slide_index)),
                      (''connector_type'', VStr ctype),
                      (''start_point'', VList [VFloat start_x, VFloat start_y]),
                      (''end_point'', VList [VFloat end_x, VFloat end_y]),
                      (''shape_index'', VInt (int (length (slides pres ! nat slide_index))))])))"

definition add_connector ::
  "env \<Rightarrow> world \<Rightarrow> int \<Rightarrow> string \<Rightarrow> pyfloat \<Rightarrow> pyfloat \<Rightarrow> pyfloat \<Rightarrow> pyfloat \<Rightarrow> pyfloat \<Rightarrow>
     pyval list option \<Rightarrow> string option \<Rightarrow> response result \<times> world" where
  "add_connector e w slide_index ctype start_x start_y end_x end_y width color
       presentation_file_name =
     catch_exception ''Failed to add connector: ''
       (with_existing_presentation e w presentation_file_name (\<lambda>path name. name)
          (connector_rest e slide_index ctype start_x start_y end_x end_y width color))"

section \<open>Hyperlinks (tools/hyperlink_tools.py)\<close>

text \<open>
  \<^verbatim>\<open>
  if operation == "list":
      hyperlinks = []
      for shape_idx, shape in enumerate(slide.shapes):
          if hasattr(shape, 'text_frame') and shape.text_frame:
              for para_idx, paragraph in enumerate(shape.text_frame.paragraphs):
                  for run_idx, run in enumerate(paragraph.runs):
                      if run.hyperlink.address:
                          hyperlinks.append({"shape_index": shape_idx,
                              "paragraph_index": para_idx, "run_index": run_idx,
                              "text": run.text, "url": run.hyperlink.address})
      return {"message": f"Found {len(hyperlinks)} hyperlinks on slide {slide_index}",
              "hyperlinks": hyperlinks, "file_path": path}
  \<close>
\<close>

definition run_links :: "nat \<Rightarrow> nat \<Rightarrow> run list \<Rightarrow> pyval list" where
  "run_links shape_idx para_idx runs =
     concat (map (\<lambda>(run_idx, r).
        if truthy_str (hyperlink_address r)
        then [VDict [(''shape_index'', VInt (int shape_idx)),
                     (''paragraph_index'', VInt (int para_idx)),
                     (''run_index'', VInt (int run_idx)),
                     (''text'', VStr (run_text r)),
                     (''url'', str_option_value (hyperlink_address r))]]
        else []) (enumerate 0 runs))"

fun shape_links :: "nat \<Rightarrow> shape \<Rightarrow> pyval list" where
  "shape_links shape_idx (TextShape paragraphs) =
     concat (map (\<lambda>(para_idx, runs). run_links shape_idx para_idx runs) (enumerate 0 paragraphs))"
| "shape_links shape_idx sh = []"

definition slide_links :: "shape list \<Rightarrow> pyval list" where
  "slide_links slide = concat (map (\<lambda>(shape_idx, sh). shape_links shape_idx sh) (enumerate 0 slide))"

text \<open>
  \<^verbatim>\<open>
  if shape_index is None or not (0 <= shape_index < len(slide.shapes)):
      return {"error": f"Shape index {shape_index} out of range"}
  shape = slide.shapes[shape_index]
  if not hasattr(shape, 'text_frame') or not shape.text_frame:
      return {"error": "Shape does not contain text"}
  if operation == "add":
      if not text or not url:
          return {"error": "Both 'text' and 'url' are required for adding hyperlinks"}
      paragraph = shape.text_frame.paragraphs[0]
      run = paragraph.add_run()
      run.text = text
      run.hyperlink.address = url
      ppt_utils.save_presentation(pres, path)
      return {"message": f"Added hyperlink '{text}' -> '{url}' to shape {shape_index}",
              "text": text, "url": url, "file_path": path}
  elif operation == "update":
      if not url:
          return {"error": "URL is required for updating hyperlinks"}
      paragraphs = shape.text_frame.paragraphs
      if run_index < len(paragraphs[0].runs):
          run = paragraphs[0].runs[run_index]
          old_url = run.hyperlink.address
          run.hyperlink.address = url
          ppt_utils.save_presentation(pres, path)
          return {"message": f"Updated hyperlink from '{old_url}' to '{url}'",
                  "old_url": old_url, "new_url": url, "text": run.text, "file_path": path}
      else:
          return {"error": f"Run index {run_index} out of range"}
  elif operation == "remove":
      paragraphs = shape.text_frame.paragraphs
      if run_index < len(paragraphs[0].runs):
          run = paragraphs[0].runs[run_index]
          old_url = run.hyperlink.address
          run.hyperlink.address = None
          ppt_utils.save_presentation(pres, path)
          return {"message": f"Removed hyperlink '{old_url}' from text '{run.text}'",
                  "removed_url": old_url, "text": run.text, "file_path": path}
      else:
          return {"error": f"Run index {run_index} out of range"}
  else:
      return {"error": f"Unsupported operation: {operation}. Use 'add', 'remove', 'list', or 'update'"}
  \<close>
\<close>

definition run_error :: "int \<Rightarrow> response" where
  "run_error run_index = error_response (''Run index '' @ show_int run_index @ '' out of range'')"

definition set_first_paragraph :: "presentation \<Rightarrow> nat \<Rightarrow> nat \<Rightarrow> run list list \<Rightarrow> run list \<Rightarrow> presentation" where
  "set_first_paragraph pres i j paragraphs runs = set_shape pres i j (TextShape (paragraphs[0 := runs]))"

definition hyperlink_add ::
  "env \<Rightarrow> world \<Rightarrow> string \<Rightarrow> presentation \<Rightarrow> nat \<Rightarrow> nat \<Rightarrow> run list list \<Rightarrow> string option \<Rightarrow>
     string option \<Rightarrow> response result \<times> world" where
  "hyperlink_add e w path pres i j paragraphs link_text url =
     (if \<not> truthy_str link_text \<or> \<not> truthy_str url then
        (Return (error_response
           (''Both '' @ squote @ ''text'' @ squote @ '' and '' @ squote @ ''url'' @ squote @
            '' are required for adding hyperlinks'')), w)
      else
        (case py_index paragraphs 0 of
           Raise x \<Rightarrow> (Raise x, w)
         | Return paragraph \<Rightarrow>
             save_then e w
               (set_first_paragraph pres i j paragraphs
                  (paragraph @ [\<lparr>run_text = show_str_option link_text, hyperlink_address = url\<rparr>]))
               path
               [(''message'', VStr (''Added hyperlink '' @ squote @ show_str_option link_text @
                   squote @ '' -> '' @ squote @ show_str_option url @ squote @ '' to shape '' @
                   show_int (int j))),
                (''text'', str_option_value link_text),
                (''url'', str_option_value url),
                (''file_path'', VStr path)]))"

definition hyperlink_update ::
  "env \<Rightarrow> world \<Rightarrow> string \<Rightarrow> presentation \<Rightarrow> nat \<Rightarrow> nat \<Rightarrow> run list list \<Rightarrow> string option \<Rightarrow>
     int \<Rightarrow> response result \<times> world" where
  "hyperlink_update e w path pres i j paragraphs url run_index =
     (if \<not> truthy_str url then
        (Return (error_response ''URL is required for updating hyperlinks''), w)
      else
        (case py_index paragraphs 0 of
           Raise x \<Rightarrow> (Raise x, w)
         | Return runs \<Rightarrow>
             if run_index < int (length runs) then
               (case py_index runs run_index of
                  Raise x \<Rightarrow> (Raise x, w)
                | Return r \<Rightarrow>
                    save_then e w
                      (set_first_paragraph pres i j paragraphs
                         (runs[py_position runs run_index := r\<lparr>hyperlink_address := url\<rparr>]))
                      path
                      [(''message'', VStr (''Updated hyperlink from '' @ squote @
                          show_str_option (hyperlink_address r) @ squote @ '' to '' @ squote @
                          show_str_option url @ squote)),
                       (''old_url'', str_option_value (hyperlink_address r)),
                       (''new_url'', str_option_value url),
                       (''text'', VStr (run_text r)),
                       (''file_path'', VStr path)])
             else (Return (run_error run_index), w)))"

definition hyperlink_remove ::
  "env \<Rightarrow> world \<Rightarrow> string \<Rightarrow> presentation \<Rightarrow> nat \<Rightarrow> nat \<Rightarrow> run list list \<Rightarrow> int \<Rightarrow>
     response result \<times> world" where
  "hyperlink_remove e w path pres i j paragraphs run_index =
     (case py_index paragraphs 0 of
        Raise x \<Rightarrow> (Raise x, w)
      | Return runs \<Rightarrow>
          if run_index < int (length runs) then
            (case py_index runs run_index of
               Raise x \<Rightarrow> (Raise x, w)
             | Return r \<Rightarrow>
                 save_then e w
                   (set_first_paragraph pres i j paragraphs
                      (runs[py_position runs run_index := r\<lparr>hyperlink_address := None\<rparr>]))
                   path
                   [(''message'', VStr (''Removed hyperlink '' @ squote @
                       show_str_option (hyperlink_address r) @ squote @ '' from text '' @
                       squote @ run_text r @ squote)),
                    (''removed_url'', str_option_value (hyperlink_address r)),
                    (''text'', VStr (run_text r)),
                    (''file_path'', VStr path)])
          else (Return (run_error run_index), w))"

definition hyperlinks_rest ::
  "env \<Rightarrow> string \<Rightarrow> int \<Rightarrow> int option \<Rightarrow> string option \<Rightarrow> string option \<Rightarrow> int \<Rightarrow> world \<Rightarrow>
     string \<Rightarrow> presentation \<Rightarrow> response result \<times> world" where
  "hyperlinks_rest e operation slide_index shape_index link_text url run_index w path pres =
     (if \<not> slide_index_ok pres slide_index then (Return (slide_error slide_index), w)
      else
        (let slide = slides pres ! nat slide_index
         in if operation = ''list'' then
              (Return [(''message'', VStr (''Found '' @ show_int (int (length (slide_links slide))) @
                          '' hyperlinks on slide '' @ show_int slide_index)),
                       (''hyperlinks'', VList (slide_links slide)),
                       (''file_path'', VStr path)], w)
            else
              (case shape_index of
                 None \<Rightarrow> (Return (shape_error None), w)
               | Some si \<Rightarrow>
                   if \<not> shape_index_ok slide si then (Return (shape_error (Some si)), w)
                   else
                     (case slide ! nat si of
                        TextShape paragraphs \<Rightarrow>
                          if operation = ''add'' then
                            hyperlink_add e w path pres (nat slide_index) (nat si) paragraphs
                              link_text url
                          else if operation = ''update'' then
                            hyperlink_update e w path pres (nat slide_index) (nat si) paragraphs
                              url run_index
                          else if operation = ''remove'' then
                            hyperlink_remove e w path pres (nat slide_index) (nat si) paragraphs
                              run_index
                          else
                            (Return (error_response
                               (''Unsupported operation: '' @ operation @ ''. Use '' @ squote @
                                ''add'' @ squote @ '', '' @ squote @ ''remove'' @ squote @ '', '' @
                                squote @ ''list'' @ squote @ '', or '' @ squote @ ''update'' @
                                squote)), w)
                      | ChartShape ch \<Rightarrow>
                          (Return (error_response ''Shape does not contain text''), w)
                      | ConnectorShape c \<Rightarrow>
                          (Return (error_response ''Shape does not contain text''), w)
                      | OtherShape \<Rightarrow>
                          (Return (error_response ''Shape does not contain text''), w)))))"

definition manage_hyperlinks ::
  "env \<Rightarrow> world \<Rightarrow> string \<Rightarrow> int \<Rightarrow> int option \<Rightarrow> string option \<Rightarrow> string option \<Rightarrow> int \<Rightarrow>
     string option \<Rightarrow> response result \<times> world" where
  "manage_hyperlinks e w operation slide_index shape_index link_text url run_index
       presentation_file_name =
     catch_exception ''Failed to manage hyperlinks: ''
       (with_existing_presentation e w presentation_file_name (\<lambda>path name. path)
          (hyperlinks_rest e operation slide_index shape_index link_text url run_index))"

section \<open>Template search directories (ppt_mcp_server.py)\<close>

text \<open>
  \<^verbatim>\<open>
  def get_template_search_directories():
      template_env_path = os.environ.get('PPT_TEMPLATE_PATH')
      if template_env_path:
          separator = ';' if platform.system() == "Windows" else ':'
          env_dirs = [path.strip() for path in template_env_path.split(separator) if path.strip()]
          valid_env_dirs = []
          for dir_path in env_dirs:
              expanded_path = os.path.expanduser(dir_path)
              if os.path.exists(expanded_path) and os.path.isdir(expanded_path):
                  valid_env_dirs.append(expanded_path)
          if valid_env_dirs:
              return valid_env_dirs + ['.', './templates', './assets', './resources']
          else:
              print(f"Warning: PPT_TEMPLATE_PATH directories not found: {template_env_path}")
      return ['.', './templates', './assets', './resources']
  \<close>
\<close>

definition fallback_dirs :: "string list" where
  "fallback_dirs = [''.'', ''./templates'', ''./assets'', ''./resources'']"

definition path_separator :: "env \<Rightarrow> char" where
  "path_separator e = (if platform_system e = ''Windows'' then CHR '';'' else CHR '':'')"

definition valid_env_dirs :: "env \<Rightarrow> world \<Rightarrow> string \<Rightarrow> string list" where
  "valid_env_dirs e w template_env_path =
     filter (\<lambda>expanded_path. path_exists e w expanded_path \<and> path_isdir e w expanded_path)
       (map (expanduser e)
          (map strip (filter (\<lambda>path. strip path \<noteq> [])
             (split_on (path_separator e) template_env_path))))"

definition template_warning :: "string \<Rightarrow> string" where
  "template_warning template_env_path =
     ''Warning: PPT_TEMPLATE_PATH directories not found: '' @ template_env_path"

definition get_template_search_directories :: "env \<Rightarrow> world \<Rightarrow> string list \<times> world" where
  "get_template_search_directories e w =
     (case environ e ''PPT_TEMPLATE_PATH'' of
        None \<Rightarrow> (fallback_dirs, w)
      | Some template_env_path \<Rightarrow>
          if template_env_path = [] then (fallback_dirs, w)
          else if valid_env_dirs e w template_env_path \<noteq> []
          then (valid_env_dirs e w template_env_path @ fallback_dirs, w)
          else (fallback_dirs, print_line (template_warning template_env_path) w))"

text \<open>
  The search list as the specification words it: whenever the variable is set, split it
  on the separator, expand the home shorthand, keep the entries that are directories; a
  set variable without a valid entry gives a warning.
\<close>

definition spec_env_dirs :: "env \<Rightarrow> world \<Rightarrow> string \<Rightarrow> string list" where
  "spec_env_dirs e w template_env_path =
     filter (\<lambda>expanded_path. path_exists e w expanded_path \<and> path_isdir e w expanded_path)
       (map (expanduser e) (split_on (path_separator e) template_env_path))"

definition spec_template_search_directories :: "env \<Rightarrow> world \<Rightarrow> string list \<times> world" where
  "spec_template_search_directories e w =
     (case environ e ''PPT_TEMPLATE_PATH'' of
        None \<Rightarrow> (fallback_dirs, w)
      | Some template_env_path \<Rightarrow>
          if spec_env_dirs e w template_env_path \<noteq> []
          then (spec_env_dirs e w template_env_path @ fallback_dirs, w)
          else (fallback_dirs, print_line (template_warning template_env_path) w))"

section \<open>Relating two file systems\<close>

text \<open>
  \<open>only_dirs_added w w'\<close>: every node of \<open>w\<close> is still there in \<open>w'\<close>, unchanged, and
  whatever is new in \<open>w'\<close> is a directory. No file was written, changed or removed.
\<close>

definition only_dirs_added :: "world \<Rightarrow> world \<Rightarrow> bool" where
  "only_dirs_added w w' =
     (\<forall>k. lookup w' k = lookup w k \<or> (lookup w k = None \<and> lookup w' k = Some Dir))"

text \<open>
  \<open>holds_presentation e w name path pres\<close>: the identifier \<open>name\<close> is not empty, the
  resolver maps it to \<open>path\<close>, and in \<open>w\<close> the file at \<open>path\<close> is the presentation
  \<open>pres\<close>.
\<close>

definition holds_presentation :: "env \<Rightarrow> world \<Rightarrow> string \<Rightarrow> string \<Rightarrow> presentation \<Rightarrow> bool" where
  "holds_presentation e w name path pres =
     (name \<noteq> [] \<and> fst (resolve_presentation_path e w name) = Return path \<and>
      lookup w (path_key e path) = Some (File (Pptx pres)))"


definition is_error_response :: "response \<Rightarrow> bool" where
  "is_error_response r = (map_of r ''error'' \<noteq> None \<and> map_of r ''message'' = None)"


section \<open>A small machine to run the code on\<close>

text \<open>
  A user working in \<^verbatim>\<open>/home/ana\<close>, with no environment variable and no flag set; the
  directory holds a text file \<^verbatim>\<open>notes\<close>.
\<close>

definition example_env :: env where
  "example_env = \<lparr>cwd = ''/home/ana'', environ = Map.empty, presentations_root_cli = None,
     platform_system = ''Linux'', pw_dir = Map.empty\<rparr>"



text \<open>
  The same machine with a presentations directory: \<^verbatim>\<open>deck.pptx\<close> is a presentation of
  two slides, the first with a text box of two runs (the second a hyperlink), a chart and
  a picture; \<^verbatim>\<open>broken.pptx\<close> is not a presentation.
\<close>

definition example_deck :: presentation where
  "example_deck =
     \<lparr>slides =
        [[TextShape [[\<lparr>run_text = ''Hello'', hyperlink_address = None\<rparr>,
                      \<lparr>run_text = ''site'', hyperlink_address = Some ''http://example.org''\<rparr>]],
          ChartShape \<lparr>categories = [VStr ''Q1''], series = [(VStr ''Sales'', VList [VInt 3])]\<rparr>,
          OtherShape],
         []],
      core = \<lparr>prop_title = ''Deck'', prop_subject = [], prop_author = ''ana'',
              prop_keywords = [], prop_comments = []\<rparr>\<rparr>"

definition deck_world :: world where
  "deck_world = \<lparr>files = [[''home''] \<mapsto> Dir, [''home'', ''ana''] \<mapsto> Dir,
     [''home'', ''ana'', ''notes''] \<mapsto> File NotPptx,
     [''home'', ''ana'', ''presentations''] \<mapsto> Dir,
     [''home'', ''ana'', ''presentations'', ''deck.pptx''] \<mapsto> File (Pptx example_deck),
     [''home'', ''ana'', ''presentations'', ''broken.pptx''] \<mapsto> File NotPptx], stdout = []\<rparr>"

section \<open>Properties of the validators\<close>

lemma first_failing_None:
  "first_failing cs v = None \<longleftrightarrow> list_all (\<lambda>(f, m). f v) cs"
  by (induction cs) (auto split: if_splits)

lemma first_failing_Some:
  "first_failing cs v = Some msg \<Longrightarrow>
     \<exists>cs1 f cs2. cs = cs1 @ (f, msg) # cs2 \<and> list_all (\<lambda>(f, m). f v) cs1 \<and> \<not> f v"
proof (induction cs)
  case Nil
  then show ?case by simp
next
  case (Cons c cs)
  obtain g m where c: "c = (g, m)" by (cases c)
  show ?case
  proof (cases "g v")
    case True
    with Cons c obtain cs1 f cs2 where
      "cs = cs1 @ (f, msg) # cs2" "list_all (\<lambda>(f, m). f v) cs1" "\<not> f v"
      by auto
    with True c have
      "c # cs = (c # cs1) @ (f, msg) # cs2 \<and> list_all (\<lambda>(f, m). f v) (c # cs1) \<and> \<not> f v"
      by simp
    then show ?thesis by blast
  next
    case False
    with Cons.prems c have "msg = m" by simp
    with False c have
      "c # cs = [] @ (g, msg) # cs \<and> list_all (\<lambda>(f, m). f v) [] \<and> \<not> g v"
      by simp
    then show ?thesis by blast
  qed
qed

lemma first_failing_prefix:
  "list_all (\<lambda>(f, m). f v) cs1 \<Longrightarrow> \<not> f v \<Longrightarrow>
     first_failing (cs1 @ (f, msg) # cs2) v = Some msg"
  by (induction cs1) auto

lemma validate_parameters_success:
  "validate_parameters ps = (True, None) \<longleftrightarrow> all_constraints_hold ps"
proof (induction ps)
  case Nil
  then show ?case by (simp add: all_constraints_hold_def)
next
  case (Cons p ps)
  obtain n v cs where p: "p = (n, v, cs)" by (cases p)
  show ?case
  proof (cases "first_failing cs v")
    case None
    then have "list_all (\<lambda>(f, m). f v) cs"
      by (simp add: first_failing_None)
    with None Cons p show ?thesis
      by (simp add: all_constraints_hold_def)
  next
    case (Some msg)
    then have "\<not> list_all (\<lambda>(f, m). f v) cs"
      using first_failing_None [of cs v] by simp
    with Some p show ?thesis
      by (simp add: all_constraints_hold_def)
  qed
qed

lemma validate_parameters_prefix:
  "all_constraints_hold ps1 \<Longrightarrow> list_all (\<lambda>(f, m). f v) cs1 \<Longrightarrow> \<not> f v \<Longrightarrow>
     validate_parameters (ps1 @ (n, v, cs1 @ (f, msg) # cs2) # ps2) =
       (False, Some (parameter_error n msg))"
proof (induction ps1)
  case Nil
  then show ?case by (simp add: first_failing_prefix)
next
  case (Cons p ps1)
  obtain n' v' cs' where p: "p = (n', v', cs')" by (cases p)
  from Cons.prems p have "first_failing cs' v' = None" and "all_constraints_hold ps1"
    by (simp_all add: all_constraints_hold_def first_failing_None)
  with Cons p show ?case by simp
qed

lemma validate_parameters_failure:
  "\<not> all_constraints_hold ps \<Longrightarrow>
     \<exists>ps1 n v cs1 f msg cs2 ps2.
        ps = ps1 @ (n, v, cs1 @ (f, msg) # cs2) # ps2 \<and>
        all_constraints_hold ps1 \<and> list_all (\<lambda>(f, m). f v) cs1 \<and> \<not> f v"
proof (induction ps)
  case Nil
  then show ?case by (simp add: all_constraints_hold_def)
next
  case (Cons p ps)
  obtain n v cs where p: "p = (n, v, cs)" by (cases p)
  show ?case
  proof (cases "first_failing cs v")
    case None
    then have ok: "list_all (\<lambda>(f, m). f v) cs"
      by (simp add: first_failing_None)
    with Cons.prems p have "\<not> all_constraints_hold ps"
      by (simp add: all_constraints_hold_def)
    with Cons.IH obtain ps1 n' v' cs1 f msg cs2 ps2 where
      d: "ps = ps1 @ (n', v', cs1 @ (f, msg) # cs2) # ps2"
         "all_constraints_hold ps1" "list_all (\<lambda>(f, m). f v') cs1" "\<not> f v'"
      by blast
    from d ok p have
      "p # ps = (p # ps1) @ (n', v', cs1 @ (f, msg) # cs2) # ps2 \<and>
       all_constraints_hold (p # ps1) \<and> list_all (\<lambda>(f, m). f v') cs1 \<and> \<not> f v'"
      by (simp add: all_constraints_hold_def)
    then show ?thesis by blast
  next
    case (Some msg)
    from first_failing_Some [OF Some] obtain cs1 f cs2 where
      "cs = cs1 @ (f, msg) # cs2" "list_all (\<lambda>(f, m). f v) cs1" "\<not> f v"
      by blast
    with p have
      "p # ps = [] @ (n, v, cs1 @ (f, msg) # cs2) # ps \<and>
       all_constraints_hold [] \<and> list_all (\<lambda>(f, m). f v) cs1 \<and> \<not> f v"
      by (simp add: all_constraints_hold_def)
    then show ?thesis by blast
  qed
qed

text \<open>
  Claim C3. \<open>validate_parameters\<close> returns \<open>(True, None)\<close> exactly when every constraint
  predicate of every parameter holds on its value. Otherwise the mapping splits at the
  first failing parameter and, inside it, at its first failing constraint: everything
  before passes, the result is the failure naming that parameter with that constraint's
  message, and the result is the same whatever constraints and parameters follow the
  first failure (it stops there).
\<close>

theorem validate_parameters_first_failure:
  "(validate_parameters ps = (True, None) \<longleftrightarrow> all_constraints_hold ps) \<and>
   (\<not> all_constraints_hold ps \<longrightarrow>
      (\<exists>ps1 n v cs1 f msg cs2 ps2.
          ps = ps1 @ (n, v, cs1 @ (f, msg) # cs2) # ps2 \<and>
          all_constraints_hold ps1 \<and> list_all (\<lambda>(f, m). f v) cs1 \<and> \<not> f v \<and>
          validate_parameters ps = (False, Some (parameter_error n msg)) \<and>
          (\<forall>cs2' ps2'. validate_parameters (ps1 @ (n, v, cs1 @ (f, msg) # cs2') # ps2') =
             (False, Some (parameter_error n msg)))))"
proof (intro conjI impI)
  show "validate_parameters ps = (True, None) \<longleftrightarrow> all_constraints_hold ps"
    by (rule validate_parameters_success)
next
  assume "\<not> all_constraints_hold ps"
  from validate_parameters_failure [OF this] obtain ps1 n v cs1 f msg cs2 ps2 where
    d: "ps = ps1 @ (n, v, cs1 @ (f, msg) # cs2) # ps2"
       "all_constraints_hold ps1" "list_all (\<lambda>(f, m). f v) cs1" "\<not> f v"
    by blast
  have stop: "validate_parameters (ps1 @ (n, v, cs1 @ (f, msg) # cs2') # ps2') =
      (False, Some (parameter_error n msg))" for cs2' ps2'
    using d(2-4) by (rule validate_parameters_prefix)
  from d stop show "\<exists>ps1 n v cs1 f msg cs2 ps2.
          ps = ps1 @ (n, v, cs1 @ (f, msg) # cs2) # ps2 \<and>
          all_constraints_hold ps1 \<and> list_all (\<lambda>(f, m). f v) cs1 \<and> \<not> f v \<and>
          validate_parameters ps = (False, Some (parameter_error n msg)) \<and>
          (\<forall>cs2' ps2'. validate_parameters (ps1 @ (n, v, cs1 @ (f, msg) # cs2') # ps2') =
             (False, Some (parameter_error n msg)))"
    by blast
qed

theorem validate_parameters_first_failure_witness:
  "\<not> all_constraints_hold
       [(''width'', 5, [(is_positive, ''must be positive'')]),
        (''height'', - 1, [(is_in_range (- 5) 5, ''must be small''),
                          (is_non_negative, ''must not be negative''),
                          (is_positive, ''must be positive'')]),
        (''depth'', 0, [(is_positive, ''must be positive'')])] \<and>
   validate_parameters
       [(''width'', 5, [(is_positive, ''must be positive'')]),
        (''height'', - 1, [(is_in_range (- 5) 5, ''must be small''),
                          (is_non_negative, ''must not be negative''),
                          (is_positive, ''must be positive'')]),
        (''depth'', 0, [(is_positive, ''must be positive'')])] =
     (False, Some (''Parameter '' @ squote @ ''height'' @ squote @ '': must not be negative''))"
  using validate_parameters_first_failure
    [of "[(''width'', 5, [(is_positive, ''must be positive'')]),
        (''height'', - 1, [(is_in_range (- 5) 5, ''must be small''),
                          (is_non_negative, ''must not be negative''),
                          (is_positive, ''must be positive'')]),
        (''depth'', 0, [(is_positive, ''must be positive'')])]"]
  by (simp add: all_constraints_hold_def is_positive_def is_non_negative_def is_in_range_def
      parameter_error_def)

lemma rgb_component_ok_iff:
  "rgb_component_ok c \<longleftrightarrow> (\<exists>n. c = VInt n \<and> 0 \<le> n \<and> n \<le> 255) \<or> (\<exists>b. c = VBool b)"
  by (cases c) (auto simp: rgb_component_ok_def)

lemma length_3_iff: "length xs = 3 \<longleftrightarrow> (\<exists>a b c. xs = [a, b, c])"
  by (auto simp: numeral_3_eq_3 length_Suc_conv)

text \<open>
  Claim C8, as stated, fails: a tuple of three integers in range is a 3-element sequence
  of integers each in [0, 255], and the validator rejects it, since it asks for a list.
\<close>

theorem is_valid_rgb_tuple_counterexample:
  "rgb_triple_spec (VTuple [VInt 255, VInt 0, VInt 0]) \<and>
   \<not> is_valid_rgb (VTuple [VInt 255, VInt 0, VInt 0])"
  by (simp add: rgb_triple_spec_def rgb_component_ok_def)

text \<open>
  Claim C8, amended. The validator accepts exactly the lists of three elements that are
  each an \<^verbatim>\<open>int\<close> instance (an integer from 0 to 255, or a boolean, which Python
  counts as the integer 0 or 1); that is, exactly the lists among the 3-element sequences
  the specification describes. It rejects every value that is not a list, every list of
  another length, every list with a non-integer element and every list with an element
  out of range: [255,0,0] passes, [256,0,0] and [1,2] fail.
\<close>

theorem is_valid_rgb_exactly_lists:
  "(is_valid_rgb v \<longleftrightarrow>
      (\<exists>a b c. v = VList [a, b, c] \<and>
         rgb_component_ok a \<and> rgb_component_ok b \<and> rgb_component_ok c)) \<and>
   (is_valid_rgb v \<longleftrightarrow> rgb_triple_spec v \<and> (\<exists>xs. v = VList xs)) \<and>
   (rgb_component_ok x \<longleftrightarrow> (\<exists>n. x = VInt n \<and> 0 \<le> n \<and> n \<le> 255) \<or> (\<exists>b. x = VBool b)) \<and>
   is_valid_rgb (VList [VInt 255, VInt 0, VInt 0]) \<and>
   \<not> is_valid_rgb (VList [VInt 256, VInt 0, VInt 0]) \<and>
   \<not> is_valid_rgb (VList [VInt 1, VInt 2])"
proof (intro conjI)
  show "is_valid_rgb v \<longleftrightarrow>
      (\<exists>a b c. v = VList [a, b, c] \<and>
         rgb_component_ok a \<and> rgb_component_ok b \<and> rgb_component_ok c)"
    by (cases v) (auto simp: length_3_iff)
  show "is_valid_rgb v \<longleftrightarrow> rgb_triple_spec v \<and> (\<exists>xs. v = VList xs)"
    by (cases v) (auto simp: rgb_triple_spec_def)
  show "rgb_component_ok x \<longleftrightarrow> (\<exists>n. x = VInt n \<and> 0 \<le> n \<and> n \<le> 255) \<or> (\<exists>b. x = VBool b)"
    by (rule rgb_component_ok_iff)
qed (simp_all add: rgb_component_ok_def)

theorem is_valid_rgb_exactly_lists_witness:
  "is_valid_rgb (VList [VInt 12, VBool True, VInt 255]) \<and>
   rgb_triple_spec (VList [VInt 12, VBool True, VInt 255]) \<and>
   rgb_component_ok (VInt 12) \<and> \<not> rgb_component_ok (VStr ''12'')"
  using is_valid_rgb_exactly_lists [of "VList [VInt 12, VBool True, VInt 255]" "VInt 12"]
    is_valid_rgb_exactly_lists [of "VList [VInt 12, VBool True, VInt 255]" "VStr ''12''"]
  by (simp add: rgb_component_ok_def)

section \<open>Properties of path resolution\<close>

lemma only_dirs_added_refl: "only_dirs_added w w"
  by (simp add: only_dirs_added_def)

lemma only_dirs_added_trans:
  "only_dirs_added w1 w2 \<Longrightarrow> only_dirs_added w2 w3 \<Longrightarrow> only_dirs_added w1 w3"
  unfolding only_dirs_added_def by (metis option.distinct(1))

lemma lookup_mkdir:
  "lookup (w\<lparr>files := (files w)(p \<mapsto> Dir)\<rparr>) k = (if k = p then Some Dir else lookup w k)"
  by (simp add: lookup_def)

lemma only_dirs_added_mkdir:
  "lookup w p = None \<Longrightarrow> only_dirs_added w (w\<lparr>files := (files w)(p \<mapsto> Dir)\<rparr>)"
  by (simp add: only_dirs_added_def lookup_mkdir)

lemma file_in_the_way_mkdir:
  "lookup w p = None \<Longrightarrow>
     file_in_the_way (w\<lparr>files := (files w)(p \<mapsto> Dir)\<rparr>) walked cs = file_in_the_way w walked cs"
  by (induction cs arbitrary: walked) (auto simp: lookup_mkdir split: option.splits node.splits)

lemma mkdirs_stdout: "stdout (snd (mkdirs w walked cs)) = stdout w"
  by (induction cs arbitrary: w walked) (auto split: option.splits node.splits)

lemma mkdirs_only_dirs_added: "only_dirs_added w (snd (mkdirs w walked cs))"
proof (induction cs arbitrary: w walked)
  case Nil
  then show ?case by (simp add: only_dirs_added_refl)
next
  case (Cons c cs)
  show ?case
  proof (cases "lookup w (walked @ [c])")
    case None
    then have "only_dirs_added w (w\<lparr>files := (files w)(walked @ [c] \<mapsto> Dir)\<rparr>)"
      by (rule only_dirs_added_mkdir)
    with None Cons.IH show ?thesis
      by (auto intro: only_dirs_added_trans)
  next
    case (Some n)
    with Cons.IH show ?thesis
      by (cases n) (simp_all add: only_dirs_added_refl)
  qed
qed

lemma mkdirs_succeeds:
  "\<not> file_in_the_way w walked cs \<Longrightarrow> lookup w walked = Some Dir \<Longrightarrow>
     fst (mkdirs w walked cs) = None \<and> lookup (snd (mkdirs w walked cs)) (walked @ cs) = Some Dir"
proof (induction cs arbitrary: w walked)
  case Nil
  then show ?case by simp
next
  case (Cons c cs)
  show ?case
  proof (cases "lookup w (walked @ [c])")
    case None
    let ?w = "w\<lparr>files := (files w)(walked @ [c] \<mapsto> Dir)\<rparr>"
    from Cons.prems None have "\<not> file_in_the_way ?w (walked @ [c]) cs"
      by (simp add: file_in_the_way_mkdir)
    moreover have "lookup ?w (walked @ [c]) = Some Dir"
      by (simp add: lookup_mkdir)
    ultimately show ?thesis
      using Cons.IH [of ?w "walked @ [c]"] None by simp
  next
    case (Some n)
    with Cons.prems Cons.IH [of w "walked @ [c]"] show ?thesis
      by (cases n) simp_all
  qed
qed

lemma mkdirs_fails:
  "file_in_the_way w walked cs \<Longrightarrow> fst (mkdirs w walked cs) \<noteq> None"
proof (induction cs arbitrary: w walked)
  case Nil
  then show ?case by simp
next
  case (Cons c cs)
  show ?case
  proof (cases "lookup w (walked @ [c])")
    case None
    with Cons.prems Cons.IH show ?thesis
      by (simp add: file_in_the_way_mkdir)
  next
    case (Some n)
    with Cons.prems Cons.IH show ?thesis
      by (cases n) simp_all
  qed
qed

lemma dropWhile_rev_Nil: "dropWhile P (rev s) = [] \<longleftrightarrow> (\<forall>c\<in>set s. P c)"
  by (simp add: dropWhile_eq_Nil_conv)








lemma lookup_print_line: "lookup (print_line s w) k = lookup w k"
  by (simp add: lookup_def print_line_def)

lemma only_dirs_added_print_line:
  "only_dirs_added w w' \<Longrightarrow> only_dirs_added w (print_line s w')"
  by (simp add: only_dirs_added_def lookup_print_line)

lemma makedirs_or_reraise_blocked:
  assumes "blocked e w d"
  shows "\<exists>x w'. makedirs_or_reraise e w d r = (Raise x, w') \<and> only_dirs_added w w'"
proof -
  obtain res w1 where m: "makedirs e w d = (res, w1)" by (cases "makedirs e w d")
  from assms have "fst (makedirs e w d) \<noteq> None"
    by (simp add: blocked_def makedirs_def mkdirs_fails)
  with m obtain x where x: "res = Some x" by auto
  have "only_dirs_added w (snd (makedirs e w d))"
    by (simp add: makedirs_def mkdirs_only_dirs_added)
  with m have "only_dirs_added w w1" by simp
  with m x show ?thesis
    by (simp add: makedirs_or_reraise_def only_dirs_added_print_line)
qed

lemma makedirs_or_reraise_free:
  assumes "\<not> blocked e w d"
  shows "\<exists>w'. makedirs_or_reraise e w d r = (Return r, w') \<and> only_dirs_added w w' \<and>
           stdout w' = stdout w \<and> lookup w' (path_key e d) = Some Dir"
proof -
  obtain res w1 where m: "makedirs e w d = (res, w1)" by (cases "makedirs e w d")
  have root: "lookup w [] = Some Dir" by (simp add: lookup_def)
  from assms have nb: "\<not> file_in_the_way w [] (path_key e d)"
    by (simp add: blocked_def)
  from mkdirs_succeeds [OF nb root] m
  have "res = None" and "lookup w1 (path_key e d) = Some Dir"
    by (simp_all add: makedirs_def)
  moreover have "only_dirs_added w (snd (makedirs e w d))"
    by (simp add: makedirs_def mkdirs_only_dirs_added)
  moreover have "stdout (snd (makedirs e w d)) = stdout w"
    by (simp add: makedirs_def mkdirs_stdout)
  ultimately show ?thesis using m
    by (simp add: makedirs_or_reraise_def)
qed


lemma normpath_nonempty: "normpath p \<noteq> []"
  by (simp add: normpath_def Let_def)


lemmas path_simps = abspath_def strip_def rstrip_chars_def py_isspace_def isabs_def
    path_join_def normpath_def normpath_step_def Let_def basename_def dirname_def is_sep_def
    looks_like_file_def dir_to_create_def path_key_def key_step_def key_path_def
    numeral_2_eq_2

lemmas world_simps = lookup_def blocked_def makedirs_def makedirs_or_reraise_def
    print_line_def path_exists_def path_isdir_def resolve_presentation_path_def
    get_presentations_root_def





section \<open>Properties of the handlers\<close>

lemma resolve_only_dirs_added:
  "only_dirs_added w (snd (resolve_presentation_path e w name))"
proof -
  have m: "only_dirs_added w (snd (makedirs_or_reraise e w d r))" for d r
  proof (cases "blocked e w d")
    case True
    from makedirs_or_reraise_blocked [OF True, of r] show ?thesis by auto
  next
    case False
    from makedirs_or_reraise_free [OF False, of r] show ?thesis by auto
  qed
  show ?thesis
    by (simp add: resolve_presentation_path_def Let_def m only_dirs_added_refl)
qed

lemma path_join_nonempty: "a \<noteq> [] \<Longrightarrow> path_join a b \<noteq> []"
  by (cases b) (auto simp: path_join_def)

lemma makedirs_or_reraise_result:
  "fst (makedirs_or_reraise e w d r) = Return p \<Longrightarrow> p = r"
  by (auto simp: makedirs_or_reraise_def split: prod.splits option.splits)

lemma resolve_nonempty:
  "fst (resolve_presentation_path e w name) = Return path \<Longrightarrow> path \<noteq> []"
  by (auto simp: resolve_presentation_path_def Let_def abspath_def normpath_nonempty
      path_join_nonempty dest!: makedirs_or_reraise_result split: if_splits)

lemma only_dirs_added_keeps:
  "only_dirs_added w w' \<Longrightarrow> lookup w k = Some n \<Longrightarrow> lookup w' k = Some n"
  unfolding only_dirs_added_def by (metis option.distinct(1))

lemma with_existing_presentation_found:
  assumes "holds_presentation e w name path pres"
  shows "with_existing_presentation e w (Some name) named rest =
           rest (snd (resolve_presentation_path e w name)) path pres"
    and "lookup (snd (resolve_presentation_path e w name)) (path_key e path) =
           Some (File (Pptx pres))"
proof -
  obtain r0 w1 where rw: "resolve_presentation_path e w name = (r0, w1)"
    by (cases "resolve_presentation_path e w name")
  from assms have n: "name \<noteq> []"
    and r: "fst (resolve_presentation_path e w name) = Return path"
    and f: "lookup w (path_key e path) = Some (File (Pptx pres))"
    by (simp_all add: holds_presentation_def)
  from r rw have r0: "r0 = Return path" by simp
  have "only_dirs_added w (snd (resolve_presentation_path e w name))"
    by (rule resolve_only_dirs_added)
  with rw have "only_dirs_added w w1" by simp
  from this f have l: "lookup w1 (path_key e path) = Some (File (Pptx pres))"
    by (rule only_dirs_added_keeps)
  with rw show "lookup (snd (resolve_presentation_path e w name)) (path_key e path) =
           Some (File (Pptx pres))"
    by simp
  from r have ne: "path \<noteq> []" by (rule resolve_nonempty)
  from l ne have ex: "path_exists e w1 path" by (simp add: path_exists_def)
  from l have op: "ppt_open_presentation e w1 path = Return pres"
    by (simp add: ppt_open_presentation_def)
  show "with_existing_presentation e w (Some name) named rest =
           rest (snd (resolve_presentation_path e w name)) path pres"
    using n rw r0 ex op
    by (simp add: with_existing_presentation_def truthy_str_def show_str_option_def)
qed


lemma catch_exception_Return: "catch_exception prefix (Return r, w) = (Return r, w)"
  by (simp add: catch_exception_def)




lemma out_of_range_slide:
  assumes "holds_presentation e w name path pres" and "\<not> slide_index_ok pres i"
  shows "manage_hyperlinks e w operation i shape_index link_text url run_index (Some name) =
           (Return (slide_error i), snd (resolve_presentation_path e w name))"
    and "update_chart_data e w i j cats series_data (Some name) =
           (Return (slide_error i), snd (resolve_presentation_path e w name))"
    and "manage_slide_transitions e w i operation transition_type duration (Some name) =
           (Return (slide_error i), snd (resolve_presentation_path e w name))"
    and "add_connector e w i ctype start_x start_y end_x end_y width color (Some name) =
           (Return (slide_error i), snd (resolve_presentation_path e w name))"
  using assms(2)
  by (simp_all add: manage_hyperlinks_def update_chart_data_def manage_slide_transitions_def
      add_connector_def with_existing_presentation_found(1) [OF assms(1)]
      hyperlinks_rest_def chart_rest_def transitions_rest_def connector_rest_def
      catch_exception_Return)

lemma out_of_range_shape:
  assumes "holds_presentation e w name path pres" and "slide_index_ok pres i"
    and "\<not> shape_index_ok (slides pres ! nat i) j"
  shows "update_chart_data e w i j cats series_data (Some name) =
           (Return (shape_error (Some j)), snd (resolve_presentation_path e w name))"
    and "operation \<noteq> ''list'' \<Longrightarrow>
         manage_hyperlinks e w operation i (Some j) link_text url run_index (Some name) =
           (Return (shape_error (Some j)), snd (resolve_presentation_path e w name))"
  using assms(2,3)
  by (simp_all add: manage_hyperlinks_def update_chart_data_def
      with_existing_presentation_found(1) [OF assms(1)]
      hyperlinks_rest_def chart_rest_def catch_exception_Return Let_def)

lemma out_of_range_run:
  assumes "holds_presentation e w name path pres" and "slide_index_ok pres i"
    and "shape_index_ok (slides pres ! nat i) j"
    and "slides pres ! nat i ! nat j = TextShape (runs # paragraphs)"
    and "int (length runs) \<le> run_index"
    and "operation = ''remove'' \<or> operation = ''update'' \<and> truthy_str url"
  shows "manage_hyperlinks e w operation i (Some j) link_text url run_index (Some name) =
           (Return (run_error run_index), snd (resolve_presentation_path e w name))"
  using assms(2-6)
  by (auto simp: manage_hyperlinks_def with_existing_presentation_found(1) [OF assms(1)]
      hyperlinks_rest_def hyperlink_update_def hyperlink_remove_def py_index_def
      catch_exception_Return Let_def)

lemmas handler_simps = with_existing_presentation_def catch_exception_def truthy_str_def
    show_str_option_def show_int_option_def str_option_value_def ppt_open_presentation_def
    ppt_save_presentation_def save_then_def slide_index_ok_def shape_index_ok_def
    slide_error_def shape_error_def run_error_def error_response_def show_int_def
    show_nat.simps digit_char_def squote_def

lemma example_deck_held:
  "holds_presentation example_env deck_world ''deck.pptx''
     ''/home/ana/presentations/deck.pptx'' example_deck"
  by (simp add: holds_presentation_def path_simps world_simps example_env_def deck_world_def)

lemma example_deck_resolves:
  "resolve_presentation_path example_env deck_world ''deck.pptx'' =
     (Return ''/home/ana/presentations/deck.pptx'', deck_world)"
  by (simp add: path_simps world_simps example_env_def deck_world_def)

text \<open>
  Claim C5, as stated, fails: the deck has two slides and the handler is asked for slide
  5. The error text names the index 5 and nothing else: neither the number of slides nor
  the last valid index occurs in it.
\<close>

theorem out_of_range_counterexample:
  "holds_presentation example_env deck_world ''deck.pptx''
     ''/home/ana/presentations/deck.pptx'' example_deck \<and>
   length (slides example_deck) = 2 \<and>
   manage_slide_transitions example_env deck_world 5 ''set'' None (PyFloat 1 0)
       (Some ''deck.pptx'') =
     (Return [(''error'', VStr ''Slide index 5 out of range'')], deck_world) \<and>
   CHR ''2'' \<notin> set ''Slide index 5 out of range'' \<and>
   CHR ''1'' \<notin> set ''Slide index 5 out of range''"
proof -
  have "\<not> slide_index_ok example_deck 5"
    by (simp add: slide_index_ok_def example_deck_def)
  from out_of_range_slide(3) [OF example_deck_held this, of "''set''" None "PyFloat 1 0"]
  have "manage_slide_transitions example_env deck_world 5 ''set'' None (PyFloat 1 0)
       (Some ''deck.pptx'') =
     (Return [(''error'', VStr ''Slide index 5 out of range'')], deck_world)"
    by (simp add: example_deck_resolves handler_simps)
  moreover have "length (slides example_deck) = 2"
    by (simp add: example_deck_def)
  ultimately show ?thesis
    using example_deck_held by simp
qed



text \<open>
  Claim C5, amended. Let the identifier name an existing presentation. A slide index
  outside the slides makes each handler return the error response naming that index; a
  shape index outside the shapes of the slide does so in \<^verbatim>\<open>update_chart_data\<close> and, for
  every operation but \<^verbatim>\<open>list\<close>, in \<^verbatim>\<open>manage_hyperlinks\<close>; a run index at or beyond
  the number of runs of the first paragraph does so in \<^verbatim>\<open>manage_hyperlinks\<close> for
  \<^verbatim>\<open>remove\<close> and for \<^verbatim>\<open>update\<close> with a URL. The error text states the index and not
  its bound. In each case nothing is saved: the world returned is the one path resolution
  left, in which the file holds the presentation it held.
\<close>

theorem out_of_range_index_errors:
  assumes "holds_presentation e w name path pres"
    and "w1 = snd (resolve_presentation_path e w name)"
  shows
    "(\<not> slide_index_ok pres i \<longrightarrow>
        manage_hyperlinks e w op_h i shape_index link_text url run_index (Some name) =
          (Return (slide_error i), w1) \<and>
        update_chart_data e w i j cats series_data (Some name) = (Return (slide_error i), w1) \<and>
        manage_slide_transitions e w i op_t transition_type duration (Some name) =
          (Return (slide_error i), w1) \<and>
        add_connector e w i ctype start_x start_y end_x end_y width color (Some name) =
          (Return (slide_error i), w1)) \<and>
     (slide_index_ok pres i \<and> \<not> shape_index_ok (slides pres ! nat i) j \<longrightarrow>
        update_chart_data e w i j cats series_data (Some name) =
          (Return (shape_error (Some j)), w1) \<and>
        (op_h \<noteq> ''list'' \<longrightarrow>
           manage_hyperlinks e w op_h i (Some j) link_text url run_index (Some name) =
             (Return (shape_error (Some j)), w1))) \<and>
     (slide_index_ok pres i \<and> shape_index_ok (slides pres ! nat i) j \<and>
      slides pres ! nat i ! nat j = TextShape (runs # paragraphs) \<and>
      int (length runs) \<le> run_index \<and>
      (op_h = ''remove'' \<or> op_h = ''update'' \<and> truthy_str url) \<longrightarrow>
        manage_hyperlinks e w op_h i (Some j) link_text url run_index (Some name) =
          (Return (run_error run_index), w1)) \<and>
     lookup w1 (path_key e path) = Some (File (Pptx pres)) \<and> only_dirs_added w w1 \<and>
     slide_error i = [(''error'', VStr (''Slide index '' @ show_int i @ '' out of range''))] \<and>
     shape_error (Some j) = [(''error'', VStr (''Shape index '' @ show_int j @ '' out of range''))] \<and>
     run_error run_index =
       [(''error'', VStr (''Run index '' @ show_int run_index @ '' out of range''))]"
proof (intro conjI impI)
  assume "\<not> slide_index_ok pres i"
  note s = out_of_range_slide [OF assms(1) this]
  show "manage_hyperlinks e w op_h i shape_index link_text url run_index (Some name) =
          (Return (slide_error i), w1)"
    by (simp add: s(1) assms(2))
  show "update_chart_data e w i j cats series_data (Some name) = (Return (slide_error i), w1)"
    by (simp add: s(2) assms(2))
  show "manage_slide_transitions e w i op_t transition_type duration (Some name) =
          (Return (slide_error i), w1)"
    by (simp add: s(3) assms(2))
  show "add_connector e w i ctype start_x start_y end_x end_y width color (Some name) =
          (Return (slide_error i), w1)"
    by (simp add: s(4) assms(2))
next
  assume a: "slide_index_ok pres i \<and> \<not> shape_index_ok (slides pres ! nat i) j"
  then have a1: "slide_index_ok pres i" and a2: "\<not> shape_index_ok (slides pres ! nat i) j"
    by simp_all
  show "update_chart_data e w i j cats series_data (Some name) =
          (Return (shape_error (Some j)), w1)"
    by (simp add: out_of_range_shape(1) [OF assms(1) a1 a2] assms(2))
  assume "op_h \<noteq> ''list''"
  then show "manage_hyperlinks e w op_h i (Some j) link_text url run_index (Some name) =
             (Return (shape_error (Some j)), w1)"
    by (simp add: out_of_range_shape(2) [OF assms(1) a1 a2] assms(2))
next
  assume a: "slide_index_ok pres i \<and> shape_index_ok (slides pres ! nat i) j \<and>
      slides pres ! nat i ! nat j = TextShape (runs # paragraphs) \<and>
      int (length runs) \<le> run_index \<and>
      (op_h = ''remove'' \<or> op_h = ''update'' \<and> truthy_str url)"
  then have a1: "slide_index_ok pres i"
    and a2: "shape_index_ok (slides pres ! nat i) j"
    and a3: "slides pres ! nat i ! nat j = TextShape (runs # paragraphs)"
    and a4: "int (length runs) \<le> run_index"
    and a5: "op_h = ''remove'' \<or> op_h = ''update'' \<and> truthy_str url"
    by simp_all
  have "manage_hyperlinks e w op_h i (Some j) link_text url run_index (Some name) =
          (Return (run_error run_index), snd (resolve_presentation_path e w name))"
    by (rule out_of_range_run [OF assms(1) a1 a2 a3 a4 a5])
  then show "manage_hyperlinks e w op_h i (Some j) link_text url run_index (Some name) =
          (Return (run_error run_index), w1)"
    by (simp add: assms(2))
next
  show "lookup w1 (path_key e path) = Some (File (Pptx pres))"
    by (simp add: assms(2) with_existing_presentation_found(2) [OF assms(1)])
  show "only_dirs_added w w1"
    by (simp add: assms(2) resolve_only_dirs_added)
qed (simp_all add: slide_error_def shape_error_def run_error_def error_response_def
      show_int_option_def)

theorem out_of_range_index_errors_witness:
  "update_chart_data example_env deck_world 7 0 [] [] (Some ''deck.pptx'') =
     (Return [(''error'', VStr ''Slide index 7 out of range'')], deck_world) \<and>
   update_chart_data example_env deck_world 0 9 [] [] (Some ''deck.pptx'') =
     (Return [(''error'', VStr ''Shape index 9 out of range'')], deck_world) \<and>
   manage_hyperlinks example_env deck_world ''remove'' 0 (Some 0) None None 2 (Some ''deck.pptx'') =
     (Return [(''error'', VStr ''Run index 2 out of range'')], deck_world)"
proof -
  have w1: "deck_world = snd (resolve_presentation_path example_env deck_world ''deck.pptx'')"
    by (simp add: example_deck_resolves)
  have a: "\<not> slide_index_ok example_deck 7"
    by (simp add: slide_index_ok_def example_deck_def)
  have b: "slide_index_ok example_deck 0 \<and> \<not> shape_index_ok (slides example_deck ! nat 0) 9"
    by (simp add: slide_index_ok_def shape_index_ok_def example_deck_def)
  have c: "slide_index_ok example_deck 0 \<and> shape_index_ok (slides example_deck ! nat 0) 0 \<and>
      slides example_deck ! nat 0 ! nat 0 =
        TextShape ([\<lparr>run_text = ''Hello'', hyperlink_address = None\<rparr>,
                    \<lparr>run_text = ''site'', hyperlink_address = Some ''http://example.org''\<rparr>] # []) \<and>
      int (length [\<lparr>run_text = ''Hello'', hyperlink_address = None\<rparr>,
                    \<lparr>run_text = ''site'', hyperlink_address = Some ''http://example.org''\<rparr>]) \<le> 2 \<and>
      (''remove'' = ''remove'' \<or> ''remove'' = ''update'' \<and> truthy_str None)"
    by (simp add: slide_index_ok_def shape_index_ok_def example_deck_def)
  from out_of_range_index_errors [OF example_deck_held w1, of 7 _ _ _ _ _ 0 "[]" "[]"] a
  have "update_chart_data example_env deck_world 7 0 [] [] (Some ''deck.pptx'') =
     (Return (slide_error 7), deck_world)"
    by blast
  moreover
  from out_of_range_index_errors [OF example_deck_held w1, of 0 _ _ _ _ _ 9 "[]" "[]"] b
  have "update_chart_data example_env deck_world 0 9 [] [] (Some ''deck.pptx'') =
     (Return (shape_error (Some 9)), deck_world)"
    by blast
  moreover
  from out_of_range_index_errors [OF example_deck_held w1, of 0 "''remove''" "Some 0" None None 2 0] c
  have "manage_hyperlinks example_env deck_world ''remove'' 0 (Some 0) None None 2 (Some ''deck.pptx'') =
     (Return (run_error 2), deck_world)"
    by blast
  ultimately show ?thesis
    by (simp add: handler_simps)
qed

end
